theory Spec2Isabelle
  imports Complex_Main "HOL-Library.Multiset" "HOL-Library.Monad_Syntax"
begin

section \<open>Values, results and the transport\<close>

text \<open>
  A Go \<^verbatim>\<open>interface{}\<close> value is modelled by its dynamic type and value. The first three
  constructors are the dynamic types that \<^verbatim>\<open>util.go\<close> switches on over and above those
  that \<^verbatim>\<open>encoding/json\<close> produces (\<^verbatim>\<open>float64\<close>, \<^verbatim>\<open>string\<close>, \<^verbatim>\<open>bool\<close>, \<^verbatim>\<open>nil\<close>,
  \<^verbatim>\<open>[]interface{}\<close>, \<^verbatim>\<open>map[string]interface{}\<close>).

  A \<^verbatim>\<open>float64\<close> is modelled by a real number: the values that are compared here come from
  JSON numbers, so they are finite, and on finite values the comparisons of \<^verbatim>\<open>float64\<close> are
  those of the reals; sums, differences and products are the exact ones. Go's \<^verbatim>\<open>int\<close> is
  modelled by \<open>int\<close>, with the range of 64 bits written out where a value is converted
  or multiplied.
\<close>

datatype dyn =
    DInt int
  | DInt64 int
  | DNumber string
  | DFloat64 real
  | DString string
  | DBool bool
  | DNil
  | DSlice "dyn list"
  | DMap "(string \<times> dyn) list"

text \<open>The conversion \<^verbatim>\<open>int(f)\<close> and \<^verbatim>\<open>int64(f)\<close> of a \<^verbatim>\<open>float64\<close>: the fraction is
  discarded; beyond the range of 64 bits, where the Go specification leaves the result to
  the implementation, the result is the one of amd64, the least integer of 64 bits.\<close>

definition truncToInt :: "real \<Rightarrow> int" where
  "truncToInt x =
     (let t = (if 0 \<le> x then \<lfloor>x\<rfloor> else \<lceil>x\<rceil>)
      in if - 9223372036854775808 \<le> t \<and> t \<le> 9223372036854775807 then t
         else - 9223372036854775808)"

text \<open>The arithmetic of \<^verbatim>\<open>int64\<close> wraps around.\<close>

definition wrap64 :: "int \<Rightarrow> int" where
  "wrap64 n = (n + 9223372036854775808) mod 18446744073709551616 - 9223372036854775808"

text \<open>
  The functions of the Go library that the code calls and that are not modelled further:
  the parsers of \<^verbatim>\<open>strconv\<close> (also behind \<^verbatim>\<open>json.Number\<close>), \<^verbatim>\<open>sort.Slice\<close> on the slice of
  offers with its \<^verbatim>\<open>less\<close> function, and \<^verbatim>\<open>fmt.Sprintf\<close> with the verbs
  \<^verbatim>\<open>%.2f\<close> and \<^verbatim>\<open>%.6f\<close>.
\<close>

record BitfinexOffer =
  OfferID :: int
  Period :: int
  Rate :: real
  Amount :: real

record golib =
  parseInt :: "string \<Rightarrow> int option"
  parseFloat :: "string \<Rightarrow> real option"
  sortSlice :: "(BitfinexOffer \<Rightarrow> BitfinexOffer \<Rightarrow> bool) \<Rightarrow> BitfinexOffer list \<Rightarrow> BitfinexOffer list"
  sprintf2 :: "real \<Rightarrow> string"
  sprintf6 :: "real \<Rightarrow> string"

text \<open>The errors of the code are \<^verbatim>\<open>fmt.Errorf\<close> values; they are tagged here by kind and keep
  the message of the source.\<close>

datatype error =
    ValidationError string
  | TransportError string
  | DecodeError string
  | NoOffersAvailable string
  | VenueRejected string

text \<open>A call either returns or panics (a failed type assertion, an index out of range).\<close>

datatype 'a exec = Panicked | Returned 'a

text \<open>
  What \<^verbatim>\<open>SendRequest\<close> gives back: an error, or the bytes of the body. The bytes are
  represented by what \<^verbatim>\<open>encoding/json\<close> reads in them: nothing, or a value.
\<close>

datatype bytes = NotJSON | JSON dyn

datatype reply = SendFailed string | Body bytes

record FundingOfferRequest =
  reqType :: string
  reqSymbol :: string
  reqAmount :: string
  reqRate :: string
  reqPeriod :: int
  reqFlags :: int

datatype body = NoBody | OfferBody FundingOfferRequest | CancelBody int

type_synonym request = "string \<times> string \<times> body"

text \<open>The history of a run: the calls of \<^verbatim>\<open>SendRequest\<close> and of \<^verbatim>\<open>time.Sleep\<close> (in
  seconds), in order. The venue's reply to a request may depend on all that happened before.\<close>

datatype event = Request request | Slept nat

type_synonym transport = "event list \<Rightarrow> request \<Rightarrow> reply"

definition SendRequest :: "transport \<Rightarrow> event list \<Rightarrow> request \<Rightarrow> (string + bytes) \<times> event list" where
  "SendRequest tr hist rq =
     ((case tr hist rq of SendFailed m \<Rightarrow> Inl m | Body b \<Rightarrow> Inr b), hist @ [Request rq])"

text \<open>\<^verbatim>\<open>json.Unmarshal\<close> into \<^verbatim>\<open>[]interface{}\<close> and into \<^verbatim>\<open>[][]interface{}\<close>: \<^verbatim>\<open>null\<close> gives a
  nil slice, anything that is not an array is an error.\<close>

fun unmarshalSlice :: "bytes \<Rightarrow> dyn list option" where
  "unmarshalSlice (JSON DNil) = Some []"
| "unmarshalSlice (JSON (DSlice xs)) = Some xs"
| "unmarshalSlice _ = None"

fun unmarshalRow :: "dyn \<Rightarrow> dyn list option" where
  "unmarshalRow DNil = Some []"
| "unmarshalRow (DSlice xs) = Some xs"
| "unmarshalRow _ = None"

fun unmarshalRowsOf :: "dyn list \<Rightarrow> dyn list list option" where
  "unmarshalRowsOf [] = Some []"
| "unmarshalRowsOf (x # xs) =
     (case unmarshalRow x of
        None \<Rightarrow> None
      | Some r \<Rightarrow> (case unmarshalRowsOf xs of None \<Rightarrow> None | Some rs \<Rightarrow> Some (r # rs)))"

fun unmarshalRows :: "bytes \<Rightarrow> dyn list list option" where
  "unmarshalRows (JSON DNil) = Some []"
| "unmarshalRows (JSON (DSlice xs)) = unmarshalRowsOf xs"
| "unmarshalRows _ = None"

text \<open>Type assertions \<^verbatim>\<open>v.(T)\<close>: \<open>None\<close> is where the single-valued form panics.\<close>

fun assertFloat64 :: "dyn \<Rightarrow> real option" where
  "assertFloat64 (DFloat64 x) = Some x"
| "assertFloat64 _ = None"

fun assertString :: "dyn \<Rightarrow> string option" where
  "assertString (DString s) = Some s"
| "assertString _ = None"

fun assertBool :: "dyn \<Rightarrow> bool option" where
  "assertBool (DBool b) = Some b"
| "assertBool _ = None"

section \<open>util.go\<close>

fun ToInt :: "golib \<Rightarrow> dyn \<Rightarrow> int option" where
  "ToInt lib (DInt i) = Some i"
| "ToInt lib (DFloat64 x) = Some (truncToInt x)"
| "ToInt lib (DNumber s) = parseInt lib s"
| "ToInt lib _ = None"

fun ToFloat64 :: "golib \<Rightarrow> dyn \<Rightarrow> real option" where
  "ToFloat64 lib (DFloat64 x) = Some x"
| "ToFloat64 lib (DInt i) = Some (real_of_int i)"
| "ToFloat64 lib (DNumber s) = parseFloat lib s"
| "ToFloat64 lib _ = None"

fun SafeFloat64 :: "golib \<Rightarrow> dyn \<Rightarrow> real option" where
  "SafeFloat64 lib (DFloat64 x) = Some x"
| "SafeFloat64 lib (DNumber s) = parseFloat lib s"
| "SafeFloat64 lib (DString s) = parseFloat lib s"
| "SafeFloat64 lib (DInt i) = Some (real_of_int i)"
| "SafeFloat64 lib (DInt64 i) = Some (real_of_int i)"
| "SafeFloat64 lib _ = None"

section \<open>data.go: submitting and cancelling an offer\<close>

record FundingOffer =
  foID :: int
  foSymbol :: string
  foCreatedAt :: int
  foUpdatedAt :: int
  foAmount :: real
  foAmountOriginal :: real
  foType :: string
  foFlags :: int
  foStatus :: string
  foRate :: real
  foPeriod :: int
  foNotify :: bool
  foHidden :: int
  foRenew :: bool

text \<open>The struct literal of \<^verbatim>\<open>SubmitFundingOffer\<close>: every field is read with a type assertion
  that panics on another dynamic type. Times are nanoseconds since the epoch.\<close>

definition offerOfData :: "dyn list \<Rightarrow> FundingOffer option" where
  "offerOfData od = do {
     i \<leftarrow> assertFloat64 (od ! 0);
     sym \<leftarrow> assertString (od ! 1);
     created \<leftarrow> assertFloat64 (od ! 2);
     updated \<leftarrow> assertFloat64 (od ! 3);
     amount \<leftarrow> assertFloat64 (od ! 4);
     orig \<leftarrow> assertFloat64 (od ! 5);
     ty \<leftarrow> assertString (od ! 6);
     flags \<leftarrow> assertFloat64 (od ! 9);
     status \<leftarrow> assertString (od ! 10);
     rate \<leftarrow> assertFloat64 (od ! 14);
     period \<leftarrow> assertFloat64 (od ! 15);
     notify \<leftarrow> assertBool (od ! 16);
     hidden \<leftarrow> assertFloat64 (od ! 17);
     renew \<leftarrow> assertBool (od ! 19);
     Some \<lparr> foID = truncToInt i, foSymbol = sym,
            foCreatedAt = wrap64 (truncToInt created * 1000000),
            foUpdatedAt = wrap64 (truncToInt updated * 1000000),
            foAmount = amount, foAmountOriginal = orig, foType = ty,
            foFlags = truncToInt flags, foStatus = status, foRate = rate,
            foPeriod = truncToInt period, foNotify = notify,
            foHidden = truncToInt hidden, foRenew = renew \<rparr>
   }"

definition parseSubmitResponse :: "bytes \<Rightarrow> (error + FundingOffer) exec" where
  "parseSubmitResponse respBody =
     (case unmarshalSlice respBody of
        None \<Rightarrow> Returned (Inl (DecodeError ''failed to parse response''))
      | Some response \<Rightarrow>
          if length response < 8 then Returned (Inl (DecodeError ''invalid response format''))
          else (case response ! 4 of
                  DSlice offerData \<Rightarrow>
                    if length offerData < 20
                    then Returned (Inl (DecodeError ''invalid offer data format''))
                    else (case offerOfData offerData of
                            None \<Rightarrow> Panicked
                          | Some result \<Rightarrow> Returned (Inr result))
                | _ \<Rightarrow> Returned (Inl (DecodeError ''invalid offer data format''))))"

definition submitRequest :: "FundingOfferRequest \<Rightarrow> request" where
  "submitRequest offer = (''POST'', ''v2/auth/w/funding/offer/submit'', OfferBody offer)"

definition SubmitFundingOffer ::
  "transport \<Rightarrow> event list \<Rightarrow> FundingOfferRequest \<Rightarrow> (error + FundingOffer) exec \<times> event list" where
  "SubmitFundingOffer tr hist offer =
     (if reqSymbol offer = [] then (Returned (Inl (ValidationError ''symbol cannot be empty'')), hist)
      else if reqAmount offer = [] then (Returned (Inl (ValidationError ''amount cannot be empty'')), hist)
      else if reqRate offer = [] then (Returned (Inl (ValidationError ''rate cannot be empty'')), hist)
      else if reqPeriod offer < 2 \<or> reqPeriod offer > 120
        then (Returned (Inl (ValidationError ''period must be between 2 and 120 days'')), hist)
      else
        let offer' = (if reqType offer = [] then offer\<lparr>reqType := ''LIMIT''\<rparr> else offer)
        in (case SendRequest tr hist (submitRequest offer') of
              (Inl m, hist') \<Rightarrow> (Returned (Inl (TransportError m)), hist')
            | (Inr respBody, hist') \<Rightarrow> (parseSubmitResponse respBody, hist')))"

text \<open>\<^verbatim>\<open>CancelFundingOffer\<close>: the check of the response (the last statement of the function).
  \<^verbatim>\<open>response[6].(string)\<close> panics when the entry is not a string; \<^verbatim>\<open>response[7]\<close> panics
  when the response has seven entries only, and \<^verbatim>\<open>.(string)\<close> on it when it is not a string.\<close>

definition cancelRequest :: "int \<Rightarrow> request" where
  "cancelRequest offerID = (''POST'', ''v2/auth/w/funding/offer/cancel'', CancelBody offerID)"

definition checkCancelResponse :: "dyn list \<Rightarrow> error option exec" where
  "checkCancelResponse response =
     (if length response \<ge> 7 then
        (case assertString (response ! 6) of
           None \<Rightarrow> Panicked
         | Some status \<Rightarrow>
             if status \<noteq> ''SUCCESS'' then
               (if length response \<le> 7 then Panicked
                else (case assertString (response ! 7) of
                        None \<Rightarrow> Panicked
                      | Some msg \<Rightarrow> Returned (Some (VenueRejected msg))))
             else Returned None)
      else Returned None)"

definition CancelFundingOffer :: "transport \<Rightarrow> event list \<Rightarrow> int \<Rightarrow> error option exec \<times> event list" where
  "CancelFundingOffer tr hist offerID =
     (case SendRequest tr hist (cancelRequest offerID) of
        (Inl m, hist') \<Rightarrow> (Returned (Some (TransportError m)), hist')
      | (Inr respBody, hist') \<Rightarrow>
          (case unmarshalSlice respBody of
             None \<Rightarrow> (Returned (Some (DecodeError ''failed to parse response'')), hist')
           | Some response \<Rightarrow> (checkCancelResponse response, hist')))"

section \<open>data.go: decoding rate statistics\<close>

record FundingStat =
  Timestamp :: int
  FRR :: real
  AveragePeriod :: real
  FundingAmount :: real
  FundingAmountUsed :: real
  FundingBelowThreshold :: real

text \<open>The loop of \<^verbatim>\<open>parseFundingStats\<close>; the last argument is the slice \<^verbatim>\<open>stats\<close> built so far.\<close>

fun statsLoop :: "golib \<Rightarrow> dyn list list \<Rightarrow> FundingStat list \<Rightarrow> FundingStat list" where
  "statsLoop lib [] stats = stats"
| "statsLoop lib (raw # rest) stats =
     (if length raw < 12 then statsLoop lib rest stats
      else
        (case (SafeFloat64 lib (raw ! 0), SafeFloat64 lib (raw ! 3), SafeFloat64 lib (raw ! 4),
               SafeFloat64 lib (raw ! 7), SafeFloat64 lib (raw ! 8), SafeFloat64 lib (raw ! 11)) of
           (Some ts, Some frr, Some avgPeriod, Some fundingAmt, Some fundingUsed, Some fundingBelow) \<Rightarrow>
             statsLoop lib rest
               (stats @ [\<lparr> Timestamp = truncToInt ts, FRR = frr, AveragePeriod = avgPeriod,
                           FundingAmount = fundingAmt, FundingAmountUsed = fundingUsed,
                           FundingBelowThreshold = fundingBelow \<rparr>])
         | _ \<Rightarrow> statsLoop lib rest stats))"

definition parseFundingStats :: "golib \<Rightarrow> bytes \<Rightarrow> error + FundingStat list" where
  "parseFundingStats lib data =
     (case unmarshalRows data of
        None \<Rightarrow> Inl (DecodeError ''error parsing JSON'')
      | Some rawStats \<Rightarrow> Inr (statsLoop lib rawStats []))"

definition GetFundingStat ::
  "golib \<Rightarrow> transport \<Rightarrow> event list \<Rightarrow> string \<Rightarrow> (error + FundingStat list) \<times> event list" where
  "GetFundingStat lib tr hist symbol =
     (case SendRequest tr hist (''GET'', ''v2/funding/stats/'' @ symbol @ ''/hist'', NoBody) of
        (Inl m, hist') \<Rightarrow> (Inl (TransportError m), hist')
      | (Inr respBody, hist') \<Rightarrow> (parseFundingStats lib respBody, hist'))"

section \<open>data.go: the two selections over the book\<close>

text \<open>Both selections decode a row of the book in the same way: at least four fields, the
  first two read by \<^verbatim>\<open>ToInt\<close> and the next two by \<^verbatim>\<open>ToFloat64\<close>.\<close>

definition bookRow :: "golib \<Rightarrow> dyn list \<Rightarrow> BitfinexOffer option" where
  "bookRow lib rawOffer =
     (if length rawOffer < 4 then None
      else
        (case (ToInt lib (rawOffer ! 0), ToInt lib (rawOffer ! 1),
               ToFloat64 lib (rawOffer ! 2), ToFloat64 lib (rawOffer ! 3)) of
           (Some offerID, Some period, Some rate, Some amount) \<Rightarrow>
             Some \<lparr> OfferID = offerID, Period = period, Rate = rate, Amount = amount \<rparr>
         | _ \<Rightarrow> None))"

text \<open>The first loop of \<^verbatim>\<open>FindHighestRateForShortestPeriod\<close>.\<close>

fun asksLoop :: "golib \<Rightarrow> dyn list list \<Rightarrow> BitfinexOffer list \<Rightarrow> BitfinexOffer list" where
  "asksLoop lib [] offers = offers"
| "asksLoop lib (rawOffer # rest) offers =
     (case bookRow lib rawOffer of
        None \<Rightarrow> asksLoop lib rest offers
      | Some offer \<Rightarrow>
          if Amount offer \<ge> 0 then asksLoop lib rest offers
          else asksLoop lib rest (offers @ [offer]))"

text \<open>Its second loop, with the variables \<^verbatim>\<open>bestOffer\<close> and \<^verbatim>\<open>highestRate\<close>.\<close>

fun bestLoop :: "int \<Rightarrow> BitfinexOffer list \<Rightarrow> BitfinexOffer \<Rightarrow> real \<Rightarrow> BitfinexOffer" where
  "bestLoop shortestPeriod [] bestOffer highestRate = bestOffer"
| "bestLoop shortestPeriod (offer # rest) bestOffer highestRate =
     (if Period offer = shortestPeriod \<and> Rate offer > highestRate
      then bestLoop shortestPeriod rest offer (Rate offer)
      else bestLoop shortestPeriod rest bestOffer highestRate)"

definition zeroOffer :: BitfinexOffer where
  "zeroOffer = \<lparr> OfferID = 0, Period = 0, Rate = 0, Amount = 0 \<rparr>"

definition periodLess :: "BitfinexOffer \<Rightarrow> BitfinexOffer \<Rightarrow> bool" where
  "periodLess a b = (Period a < Period b)"

definition FindHighestRateForShortestPeriod :: "golib \<Rightarrow> bytes \<Rightarrow> error + BitfinexOffer" where
  "FindHighestRateForShortestPeriod lib data =
     (case unmarshalRows data of
        None \<Rightarrow> Inl (DecodeError ''error parsing JSON'')
      | Some rawOffers \<Rightarrow>
          let offers = asksLoop lib rawOffers [] in
          if length offers = 0 then Inl (NoOffersAvailable ''no valid offers found'')
          else
            let sorted = sortSlice lib periodLess offers;
                shortestPeriod = Period (sorted ! 0)
            in Inr (bestLoop shortestPeriod sorted zeroOffer (- 1)))"

text \<open>The first loop of \<^verbatim>\<open>FindHighestLendingRate\<close>.\<close>

fun lendLoop :: "golib \<Rightarrow> int \<Rightarrow> dyn list list \<Rightarrow> BitfinexOffer list \<Rightarrow> BitfinexOffer list" where
  "lendLoop lib minPeriod [] offers = offers"
| "lendLoop lib minPeriod (rawOffer # rest) offers =
     (case bookRow lib rawOffer of
        None \<Rightarrow> lendLoop lib minPeriod rest offers
      | Some offer \<Rightarrow>
          if Amount offer \<ge> 0 then lendLoop lib minPeriod rest offers
          else if Period offer < minPeriod then lendLoop lib minPeriod rest offers
          else lendLoop lib minPeriod rest (offers @ [offer\<lparr>Amount := \<bar>Amount offer\<bar>\<rparr>]))"

text \<open>Its second loop, over \<^verbatim>\<open>offers[1:]\<close>, with the variable \<^verbatim>\<open>highestRateOffer\<close>.\<close>

fun highestLoop :: "BitfinexOffer list \<Rightarrow> BitfinexOffer \<Rightarrow> BitfinexOffer" where
  "highestLoop [] highestRateOffer = highestRateOffer"
| "highestLoop (offer # rest) highestRateOffer =
     (if Rate offer > Rate highestRateOffer then highestLoop rest offer
      else if Rate offer = Rate highestRateOffer \<and> Period offer < Period highestRateOffer
        then highestLoop rest offer
      else highestLoop rest highestRateOffer)"

definition FindHighestLendingRate :: "golib \<Rightarrow> bytes \<Rightarrow> int \<Rightarrow> error + BitfinexOffer" where
  "FindHighestLendingRate lib data minPeriod =
     (case unmarshalRows data of
        None \<Rightarrow> Inl (DecodeError ''error parsing JSON'')
      | Some rawOffers \<Rightarrow>
          (case lendLoop lib minPeriod rawOffers [] of
             [] \<Rightarrow> Inl (NoOffersAvailable ''no valid lending offers found'')
           | first # others \<Rightarrow> Inr (highestLoop others first)))"

section \<open>data.go: the wallets\<close>

definition walletsRequest :: request where
  "walletsRequest = (''POST'', ''v2/auth/r/wallets'', NoBody)"

text \<open>The loop of \<^verbatim>\<open>GetWallets\<close>; the last argument is the map \<^verbatim>\<open>fundingBalances\<close>.\<close>

fun walletsLoop :: "dyn list list \<Rightarrow> (string \<rightharpoonup> real) \<Rightarrow> (string \<rightharpoonup> real) exec" where
  "walletsLoop [] fundingBalances = Returned fundingBalances"
| "walletsLoop (wallet # rest) fundingBalances =
     (if length wallet \<ge> 5 then
        (case assertString (wallet ! 0) of
           None \<Rightarrow> Panicked
         | Some walletType \<Rightarrow>
             (case assertString (wallet ! 1) of
                None \<Rightarrow> Panicked
              | Some currency \<Rightarrow>
                  if walletType = ''funding'' then
                    (case assertFloat64 (wallet ! 4) of
                       None \<Rightarrow> Panicked
                     | Some availableBalance \<Rightarrow>
                         walletsLoop rest (fundingBalances(currency \<mapsto> availableBalance)))
                  else walletsLoop rest fundingBalances))
      else walletsLoop rest fundingBalances)"

definition GetWallets :: "transport \<Rightarrow> event list \<Rightarrow> (error + (string \<rightharpoonup> real)) exec \<times> event list" where
  "GetWallets tr hist =
     (case SendRequest tr hist walletsRequest of
        (Inl m, hist') \<Rightarrow> (Returned (Inl (TransportError m)), hist')
      | (Inr respBody, hist') \<Rightarrow>
          (case unmarshalRows respBody of
             None \<Rightarrow> (Returned (Inl (DecodeError ''JSON parsing error'')), hist')
           | Some wallets \<Rightarrow>
               (case walletsLoop wallets Map.empty of
                  Panicked \<Rightarrow> (Panicked, hist')
                | Returned fundingBalances \<Rightarrow> (Returned (Inr fundingBalances), hist'))))"

text \<open>The loop of \<^verbatim>\<open>GetTotalWalletBalance\<close>, with \<^verbatim>\<open>usdBalance\<close> and \<^verbatim>\<open>ustBalance\<close>.\<close>

fun totalLoop :: "dyn list list \<Rightarrow> real \<Rightarrow> real \<Rightarrow> (real \<times> real) exec" where
  "totalLoop [] usdBalance ustBalance = Returned (usdBalance, ustBalance)"
| "totalLoop (wallet # rest) usdBalance ustBalance =
     (if length wallet \<ge> 3 then
        (case assertString (wallet ! 0) of
           None \<Rightarrow> Panicked
         | Some walletType \<Rightarrow>
             (case assertString (wallet ! 1) of
                None \<Rightarrow> Panicked
              | Some currency \<Rightarrow>
                  (case assertFloat64 (wallet ! 2) of
                     None \<Rightarrow> Panicked
                   | Some balance \<Rightarrow>
                       if walletType = ''funding'' then
                         (if currency = ''USD'' then totalLoop rest balance ustBalance
                          else if currency = ''UST'' then totalLoop rest usdBalance balance
                          else totalLoop rest usdBalance ustBalance)
                       else totalLoop rest usdBalance ustBalance)))
      else totalLoop rest usdBalance ustBalance)"

definition GetTotalWalletBalance :: "transport \<Rightarrow> event list \<Rightarrow> (error + real \<times> real) exec \<times> event list" where
  "GetTotalWalletBalance tr hist =
     (case SendRequest tr hist walletsRequest of
        (Inl m, hist') \<Rightarrow> (Returned (Inl (TransportError m)), hist')
      | (Inr respBody, hist') \<Rightarrow>
          (case unmarshalRows respBody of
             None \<Rightarrow> (Returned (Inl (DecodeError ''failed to parse wallets'')), hist')
           | Some wallets \<Rightarrow>
               (case totalLoop wallets 0 0 of
                  Panicked \<Rightarrow> (Panicked, hist')
                | Returned totals \<Rightarrow> (Returned (Inr totals), hist'))))"

section \<open>The strategy manager\<close>

record CurrentPredictOrder =
  cpoID :: int
  cpoRate :: real
  cpoPeriod :: int
  cpoSince :: int

text \<open>The two variables \<^verbatim>\<open>currentPredictOrder\<close> and \<^verbatim>\<open>currentOrderBool\<close>.\<close>

record tracking =
  currentPredictOrder :: "CurrentPredictOrder list"
  currentOrderBool :: bool

text \<open>What the manager runs in: the \<^verbatim>\<open>.env\<close> file and the two variables read from the
  environment, the venue behind \<^verbatim>\<open>SendRequest\<close>, and the library.\<close>

record world =
  dotenvLoads :: bool
  BITFINEX_API_KEY :: string
  BITFINEX_API_SECRET :: string
  venue :: transport
  stdlib :: golib

text \<open>
  How a part of \<^verbatim>\<open>StrategyManager\<close> ends: a panic, \<^verbatim>\<open>log.Fatal\<close> (the process exits with
  status 1), a \<^verbatim>\<open>return\<close>, or control going on to the next statement. Printing and logging
  are left out: they do not change the control flow.
\<close>

datatype 'a flow = Crashed | Fatal string | ReturnNow | Next 'a

definition bookRequest :: request where
  "bookRequest = (''GET'', ''v2/book/fUSD/R0?len=100'', NoBody)"

definition fixOffer :: "golib \<Rightarrow> real \<Rightarrow> BitfinexOffer \<Rightarrow> FundingOfferRequest" where
  "fixOffer lib remainFix bestOffer =
     \<lparr> reqType = ''LIMIT'', reqSymbol = ''fUSD'',
       reqAmount = sprintf2 lib remainFix,
       reqRate = sprintf6 lib (Rate bestOffer),
       reqPeriod = Period bestOffer, reqFlags = 0 \<rparr>"

text \<open>Step 5 of \<^verbatim>\<open>StrategyManager\<close>, fixed lending; the result is \<^verbatim>\<open>availableUsdBalance\<close>
  after it.\<close>

definition fixedLeg :: "world \<Rightarrow> event list \<Rightarrow> real \<Rightarrow> real \<Rightarrow> real flow \<times> event list" where
  "fixedLeg w hist availableUsdBalance remainFixUsdBalance =
     (if remainFixUsdBalance > 150 then
        let remainFix = (if availableUsdBalance < remainFixUsdBalance
                         then availableUsdBalance else remainFixUsdBalance)
        in if remainFix > 150 then
             (case SendRequest (venue w) hist bookRequest of
                (Inl m, hist1) \<Rightarrow> (ReturnNow, hist1)
              | (Inr highest, hist1) \<Rightarrow>
                  (case FindHighestRateForShortestPeriod (stdlib w) highest of
                     Inl e \<Rightarrow> (ReturnNow, hist1)
                   | Inr bestOffer \<Rightarrow>
                       (case SubmitFundingOffer (venue w) hist1
                               (fixOffer (stdlib w) remainFix bestOffer) of
                          (Panicked, hist2) \<Rightarrow> (Crashed, hist2)
                        | (Returned res, hist2) \<Rightarrow>
                            (Next (availableUsdBalance - remainFix), hist2))))
           else (Next availableUsdBalance, hist)
      else (Next availableUsdBalance, hist))"

text \<open>The loop that cancels the tracked orders: an error of a cancellation is logged, and
  the loop goes on.\<close>

fun cancelLoop :: "transport \<Rightarrow> event list \<Rightarrow> CurrentPredictOrder list \<Rightarrow> unit flow \<times> event list" where
  "cancelLoop tr hist [] = (Next (), hist)"
| "cancelLoop tr hist (order # rest) =
     (case CancelFundingOffer tr hist (cpoID order) of
        (Panicked, hist') \<Rightarrow> (Crashed, hist')
      | (Returned err, hist') \<Rightarrow> cancelLoop tr hist' rest)"

definition cancelExisting :: "transport \<Rightarrow> event list \<Rightarrow> tracking \<Rightarrow> unit flow \<times> event list \<times> tracking" where
  "cancelExisting tr hist st =
     (if currentOrderBool st then
        (case cancelLoop tr hist (currentPredictOrder st) of
           (Next u, hist') \<Rightarrow>
             (Next (), hist', st\<lparr>currentPredictOrder := [], currentOrderBool := False\<rparr>)
         | (Crashed, hist') \<Rightarrow> (Crashed, hist', st)
         | (Fatal m, hist') \<Rightarrow> (Fatal m, hist', st)
         | (ReturnNow, hist') \<Rightarrow> (ReturnNow, hist', st))
      else (Next (), hist, st))"

definition predictOffer :: "golib \<Rightarrow> real \<Rightarrow> FundingStat \<Rightarrow> FundingOfferRequest" where
  "predictOffer lib remainPredict latestStat =
     \<lparr> reqType = ''LIMIT'', reqSymbol = ''fUSD'',
       reqAmount = sprintf2 lib remainPredict,
       reqRate = sprintf6 lib (FRR latestStat * 1.3),
       reqPeriod = 2, reqFlags = 0 \<rparr>"

definition trackedOf :: "FundingOffer \<Rightarrow> CurrentPredictOrder" where
  "trackedOf res = \<lparr> cpoID = foID res, cpoRate = foRate res, cpoPeriod = foPeriod res,
                     cpoSince = foCreatedAt res \<rparr>"

text \<open>Step 6 of \<^verbatim>\<open>StrategyManager\<close>, predictive lending.\<close>

definition predictiveLeg ::
  "world \<Rightarrow> event list \<Rightarrow> tracking \<Rightarrow> real \<Rightarrow> real \<Rightarrow> unit flow \<times> event list \<times> tracking" where
  "predictiveLeg w hist st availableUsdBalance remainPredictUsdBalance =
     (if remainPredictUsdBalance > 150 then
        let remainPredict = (if availableUsdBalance < remainPredictUsdBalance
                             then availableUsdBalance else remainPredictUsdBalance)
        in if remainPredict > 150 then
             (case GetFundingStat (stdlib w) (venue w) hist ''fUSD'' of
                (Inl e, hist1) \<Rightarrow> (ReturnNow, hist1, st)
              | (Inr stats, hist1) \<Rightarrow>
                  if length stats > 0 then
                    (case cancelExisting (venue w) hist1 st of
                       (Next u, hist2, st2) \<Rightarrow>
                         (case SubmitFundingOffer (venue w) hist2
                                 (predictOffer (stdlib w) remainPredict (stats ! 0)) of
                            (Panicked, hist3) \<Rightarrow> (Crashed, hist3, st2)
                          | (Returned (Inl e), hist3) \<Rightarrow> (Next (), hist3, st2)
                          | (Returned (Inr res), hist3) \<Rightarrow>
                              (Next (), hist3,
                               st2\<lparr>currentPredictOrder := currentPredictOrder st2 @ [trackedOf res],
                                   currentOrderBool := True\<rparr>))
                     | (Crashed, hist2, st2) \<Rightarrow> (Crashed, hist2, st2)
                     | (Fatal m, hist2, st2) \<Rightarrow> (Fatal m, hist2, st2)
                     | (ReturnNow, hist2, st2) \<Rightarrow> (ReturnNow, hist2, st2))
                  else (Next (), hist1, st))
           else (Next (), hist, st)
      else (Next (), hist, st))"

record Distribution =
  Fix :: real
  Predict :: real

definition distribution :: Distribution where
  "distribution = \<lparr> Fix = 0.5, Predict = 0.5 \<rparr>"

text \<open>The end of \<^verbatim>\<open>StrategyManager\<close>: \<^verbatim>\<open>time.Sleep(300 * time.Second)\<close>, reached when the
  predictive leg has gone through.\<close>

fun thenSleep :: "unit flow \<times> event list \<times> tracking \<Rightarrow> unit flow \<times> event list \<times> tracking" where
  "thenSleep (Next u, hist, st) = (Next (), hist @ [Slept 300], st)"
| "thenSleep (Crashed, hist, st) = (Crashed, hist, st)"
| "thenSleep (Fatal m, hist, st) = (Fatal m, hist, st)"
| "thenSleep (ReturnNow, hist, st) = (ReturnNow, hist, st)"

text \<open>Steps 3 to 6 and the sleep, from the two balances on.\<close>

definition allocate ::
  "world \<Rightarrow> event list \<Rightarrow> tracking \<Rightarrow> real \<Rightarrow> real \<Rightarrow> unit flow \<times> event list \<times> tracking" where
  "allocate w hist st usdBalance availableUsdBalance =
     (let fixUsdBalance = usdBalance * Fix distribution;
          predictUsdBalance = usdBalance * Predict distribution;
          alreadyLentAmount = usdBalance - availableUsdBalance;
          remainFixUsdBalance = fixUsdBalance - (alreadyLentAmount * Fix distribution);
          remainPredictUsdBalance = predictUsdBalance - (alreadyLentAmount * Predict distribution)
      in (case fixedLeg w hist availableUsdBalance remainFixUsdBalance of
            (Next available', hist1) \<Rightarrow>
              thenSleep (predictiveLeg w hist1 st available' remainPredictUsdBalance)
          | (Crashed, hist1) \<Rightarrow> (Crashed, hist1, st)
          | (Fatal m, hist1) \<Rightarrow> (Fatal m, hist1, st)
          | (ReturnNow, hist1) \<Rightarrow> (ReturnNow, hist1, st)))"

definition StrategyManager :: "world \<Rightarrow> unit flow \<times> event list \<times> tracking" where
  "StrategyManager w =
     (let st = \<lparr> currentPredictOrder = [], currentOrderBool = False \<rparr> in
      if \<not> dotenvLoads w then (Fatal ''Error loading .env file'', [], st)
      else if BITFINEX_API_KEY w = [] \<or> BITFINEX_API_SECRET w = []
        then (Fatal ''API key and secret must be set in environment variables.'', [], st)
      else
        (case GetTotalWalletBalance (venue w) [] of
           (Panicked, hist1) \<Rightarrow> (Crashed, hist1, st)
         | (Returned (Inl e), hist1) \<Rightarrow> (Fatal ''Error getting total wallet balance:'', hist1, st)
         | (Returned (Inr (usdBalance, ustBalance)), hist1) \<Rightarrow>
             (case GetWallets (venue w) hist1 of
                (Panicked, hist2) \<Rightarrow> (Crashed, hist2, st)
              | (Returned (Inl e), hist2) \<Rightarrow> (Fatal ''Error getting wallets:'', hist2, st)
              | (Returned (Inr wallets), hist2) \<Rightarrow>
                  (case wallets ''USD'' of
                     Some balance \<Rightarrow> allocate w hist2 st usdBalance balance
                   | None \<Rightarrow> (ReturnNow, hist2, st)))))"

section \<open>The loop around the manager\<close>

text \<open>A pass of the manager ends the process when it panics or calls \<^verbatim>\<open>log.Fatal\<close>.\<close>

definition stops :: "world \<Rightarrow> bool" where
  "stops w = (case fst (StrategyManager w) of Crashed \<Rightarrow> True | Fatal m \<Rightarrow> True
              | ReturnNow \<Rightarrow> False | Next u \<Rightarrow> False)"

text \<open>
  Modelled from the spec: the driver that starts the cycle again, the caller of
  \<^verbatim>\<open>StrategyManager\<close>, which is not among the sources. The spec has the states
  ``FetchBalances, ComputeSplit, FixedLeg and PredictiveLeg, Sleep, FetchBalances (repeat)''
  and ``the cycle repeats indefinitely until the process is stopped externally''. Pass \<open>n\<close>
  runs in the world \<open>ws n\<close>; the loop is over when a pass has ended the process, and its
  value is \<open>None\<close> when it never is.
\<close>

partial_function (option) runCycles ::
  "(nat \<Rightarrow> world) \<Rightarrow> nat \<Rightarrow> event list \<Rightarrow> (unit flow \<times> event list) option" where
  "runCycles ws n hist =
     (if stops (ws n)
      then Some (fst (StrategyManager (ws n)), hist @ fst (snd (StrategyManager (ws n))))
      else runCycles ws (Suc n) (hist @ fst (snd (StrategyManager (ws n)))))"

section \<open>What the decoders are to return\<close>

text \<open>A row of rate statistics is kept when it has twelve fields and the six fields read
  are numbers for \<^verbatim>\<open>SafeFloat64\<close>; a row of the book when it has four fields that are
  numbers for \<^verbatim>\<open>ToInt\<close> and \<^verbatim>\<open>ToFloat64\<close>.\<close>

definition statRowOk :: "golib \<Rightarrow> dyn list \<Rightarrow> bool" where
  "statRowOk lib raw =
     (12 \<le> length raw \<and> SafeFloat64 lib (raw ! 0) \<noteq> None \<and> SafeFloat64 lib (raw ! 3) \<noteq> None
      \<and> SafeFloat64 lib (raw ! 4) \<noteq> None \<and> SafeFloat64 lib (raw ! 7) \<noteq> None
      \<and> SafeFloat64 lib (raw ! 8) \<noteq> None \<and> SafeFloat64 lib (raw ! 11) \<noteq> None)"

definition statOfRow :: "golib \<Rightarrow> dyn list \<Rightarrow> FundingStat" where
  "statOfRow lib raw =
     \<lparr> Timestamp = truncToInt (the (SafeFloat64 lib (raw ! 0))),
       FRR = the (SafeFloat64 lib (raw ! 3)),
       AveragePeriod = the (SafeFloat64 lib (raw ! 4)),
       FundingAmount = the (SafeFloat64 lib (raw ! 7)),
       FundingAmountUsed = the (SafeFloat64 lib (raw ! 8)),
       FundingBelowThreshold = the (SafeFloat64 lib (raw ! 11)) \<rparr>"

definition bookRowOk :: "golib \<Rightarrow> dyn list \<Rightarrow> bool" where
  "bookRowOk lib raw =
     (4 \<le> length raw \<and> ToInt lib (raw ! 0) \<noteq> None \<and> ToInt lib (raw ! 1) \<noteq> None
      \<and> ToFloat64 lib (raw ! 2) \<noteq> None \<and> ToFloat64 lib (raw ! 3) \<noteq> None)"

definition offerOfRow :: "golib \<Rightarrow> dyn list \<Rightarrow> BitfinexOffer" where
  "offerOfRow lib raw =
     \<lparr> OfferID = the (ToInt lib (raw ! 0)), Period = the (ToInt lib (raw ! 1)),
       Rate = the (ToFloat64 lib (raw ! 2)), Amount = the (ToFloat64 lib (raw ! 3)) \<rparr>"

definition decodeBook :: "golib \<Rightarrow> dyn list list \<Rightarrow> BitfinexOffer list" where
  "decodeBook lib rows = map (offerOfRow lib) (filter (bookRowOk lib) rows)"

text \<open>The entries a lender can take: those of negative amount; for the second selection,
  those of them that meet the minimum period.\<close>

definition eligible :: "golib \<Rightarrow> dyn list list \<Rightarrow> BitfinexOffer list" where
  "eligible lib rows = filter (\<lambda>offer. Amount offer < 0) (decodeBook lib rows)"

definition eligibleFrom :: "golib \<Rightarrow> int \<Rightarrow> dyn list list \<Rightarrow> BitfinexOffer list" where
  "eligibleFrom lib minPeriod rows =
     filter (\<lambda>offer. Amount offer < 0 \<and> minPeriod \<le> Period offer) (decodeBook lib rows)"

text \<open>The order of the second selection: a higher rate first, and for the same rate a
  shorter period.\<close>

definition atLeastAsGood :: "BitfinexOffer \<Rightarrow> BitfinexOffer \<Rightarrow> bool" where
  "atLeastAsGood a b = (Rate b < Rate a \<or> (Rate b = Rate a \<and> Period a \<le> Period b))"

text \<open>The response of a cancellation carries the marker of success.\<close>

definition carriesSuccess :: "dyn list \<Rightarrow> bool" where
  "carriesSuccess response = (6 < length response \<and> response ! 6 = DString ''SUCCESS'')"

section \<open>An instance of the library for the examples\<close>

text \<open>Insertion sort keeps entries that compare equal in the order of the input.\<close>

fun insertLess :: "('a \<Rightarrow> 'a \<Rightarrow> bool) \<Rightarrow> 'a \<Rightarrow> 'a list \<Rightarrow> 'a list" where
  "insertLess lt x [] = [x]"
| "insertLess lt x (y # ys) = (if lt y x then y # insertLess lt x ys else x # y # ys)"

fun insertionSort :: "('a \<Rightarrow> 'a \<Rightarrow> bool) \<Rightarrow> 'a list \<Rightarrow> 'a list" where
  "insertionSort lt [] = []"
| "insertionSort lt (x # xs) = insertLess lt x (insertionSort lt xs)"

text \<open>The examples hold no number in a string, and print the amounts and rates below only.\<close>

definition exampleLib :: golib where
  "exampleLib =
     \<lparr> parseInt = (\<lambda>s. None), parseFloat = (\<lambda>s. None), sortSlice = insertionSort,
       sprintf2 = (\<lambda>x. if x = 200 then ''200.00'' else ''?''),
       sprintf6 = (\<lambda>x. if x = 9 / 10000 then ''0.000900''
                       else if x = 26 / 100000 then ''0.000260'' else ''?'') \<rparr>"

text \<open>A book for the examples: six asks, one bid, and a row that is too short.\<close>

definition exampleBook :: "dyn list list" where
  "exampleBook =
     [[DFloat64 11, DFloat64 30, DFloat64 0.0004, DFloat64 (- 100)],
      [DFloat64 12, DFloat64 2, DFloat64 0.0002, DFloat64 (- 50)],
      [DFloat64 13, DFloat64 2, DFloat64 0.0009, DFloat64 (- 70)],
      [DFloat64 14, DFloat64 2, DFloat64 0.0009, DFloat64 (- 20)],
      [DFloat64 15, DFloat64 2, DFloat64 0.0010, DFloat64 40],
      [DFloat64 16, DFloat64 10, DFloat64 0.0004, DFloat64 (- 10)],
      [DFloat64 17, DFloat64 20, DFloat64 0.0003, DFloat64 (- 5)],
      [DFloat64 18, DFloat64 2]]"

text \<open>A venue for the examples. It holds 1000 USD in the funding wallet, 400 of them
  available; it refuses every offer but one at the rate 0.000260, and it refuses to cancel
  the offer 41.\<close>

definition exampleAccepted :: "dyn list" where
  "exampleAccepted =
     [DFloat64 1700000000000, DString ''fon-req'', DNil, DNil,
      DSlice [DFloat64 77, DString ''fUSD'', DFloat64 1700000000000, DFloat64 1700000000000,
              DFloat64 200, DFloat64 200, DString ''LIMIT'', DNil, DNil, DFloat64 0,
              DString ''ACTIVE'', DNil, DNil, DNil, DFloat64 0.00026, DFloat64 2, DBool False,
              DFloat64 0, DNil, DBool False],
      DNil, DString ''SUCCESS'', DString ''Submitting funding offer'']"

definition exampleStats :: "dyn list list" where
  "exampleStats =
     [[DFloat64 1700000000000, DNil, DNil, DFloat64 0.0002, DFloat64 30, DNil, DNil,
       DFloat64 1000, DFloat64 800, DNil, DNil, DFloat64 50]]"

definition exampleWallets :: "dyn list list" where
  "exampleWallets =
     [[DString ''exchange'', DString ''USD'', DFloat64 5, DFloat64 0, DFloat64 5],
      [DString ''funding'', DString ''USD'', DFloat64 1000, DFloat64 0, DFloat64 400]]"

fun exampleVenue :: transport where
  "exampleVenue hist (m, path, NoBody) =
     (if path = ''v2/auth/r/wallets'' then Body (JSON (DSlice (map DSlice exampleWallets)))
      else if path = ''v2/book/fUSD/R0?len=100'' then Body (JSON (DSlice (map DSlice exampleBook)))
      else Body (JSON (DSlice (map DSlice exampleStats))))"
| "exampleVenue hist (m, path, CancelBody offerID) =
     (if offerID = 41
      then Body (JSON (DSlice [DFloat64 1700000000000, DString ''fon-req'', DNil, DNil, DNil, DNil,
                               DString ''ERROR'', DString ''Offer not found'']))
      else Body (JSON (DSlice [DFloat64 1700000000000, DString ''fon-req'', DNil, DNil, DNil, DNil,
                               DString ''SUCCESS'', DString ''Offer cancelled''])))"
| "exampleVenue hist (m, path, OfferBody offer) =
     (if reqRate offer = ''0.000260'' then Body (JSON (DSlice exampleAccepted))
      else SendFailed ''Bitfinex API Error [10001]: offer: invalid (Status Code: 500)'')"

definition exampleWorld :: world where
  "exampleWorld =
     \<lparr> dotenvLoads = True, BITFINEX_API_KEY = ''key'', BITFINEX_API_SECRET = ''secret'',
       venue = exampleVenue, stdlib = exampleLib \<rparr>"

definition exampleTracking :: tracking where
  "exampleTracking =
     \<lparr> currentPredictOrder =
         [\<lparr> cpoID = 41, cpoRate = 0.0003, cpoPeriod = 2, cpoSince = 0 \<rparr>,
          \<lparr> cpoID = 42, cpoRate = 0.0003, cpoPeriod = 2, cpoSince = 0 \<rparr>],
       currentOrderBool = True \<rparr>"

text \<open>The same venue with no funding wallet in USD.\<close>

definition exampleNoUsd :: world where
  "exampleNoUsd =
     exampleWorld\<lparr>venue :=
       (\<lambda>hist rq. Body (JSON (DSlice
          [DSlice [DString ''exchange'', DString ''USD'', DFloat64 5, DFloat64 0, DFloat64 5],
           DSlice [DString ''funding'', DString ''UST'', DFloat64 100, DFloat64 0, DFloat64 100]])))\<rparr>"

text \<open>The two offers of the examples: what the predictive leg submits for 200 USD at a
  return rate of 0.0002, and what the fixed leg submits for 200 USD on the example book.\<close>

definition examplePredict :: FundingOfferRequest where
  "examplePredict = \<lparr> reqType = ''LIMIT'', reqSymbol = ''fUSD'', reqAmount = ''200.00'',
       reqRate = ''0.000260'', reqPeriod = 2, reqFlags = 0 \<rparr>"

definition exampleFix :: FundingOfferRequest where
  "exampleFix = \<lparr> reqType = ''LIMIT'', reqSymbol = ''fUSD'', reqAmount = ''200.00'',
       reqRate = ''0.000900'', reqPeriod = 2, reqFlags = 0 \<rparr>"

section \<open>Validation of an offer\<close>

text \<open>
  Claim C8. A request with an empty symbol, an empty amount, an empty rate or a period
  outside 2..120 (1 and 121, for example) is refused with a validation error, and the history
  is left as it was: \<^verbatim>\<open>SendRequest\<close> has not been called. A valid request with no type is
  sent with the type \<^verbatim>\<open>LIMIT\<close>, and is handled as the same request with that type written
  out.
\<close>

theorem SubmitFundingOffer_validates:
  "(reqSymbol offer = [] \<or> reqAmount offer = [] \<or> reqRate offer = []
      \<or> reqPeriod offer < 2 \<or> 120 < reqPeriod offer
    \<longrightarrow> (\<exists>m. SubmitFundingOffer tr hist offer = (Returned (Inl (ValidationError m)), hist)))
   \<and> (reqSymbol offer \<noteq> [] \<and> reqAmount offer \<noteq> [] \<and> reqRate offer \<noteq> []
      \<and> 2 \<le> reqPeriod offer \<and> reqPeriod offer \<le> 120 \<and> reqType offer = []
    \<longrightarrow> snd (SubmitFundingOffer tr hist offer)
          = hist @ [Request (submitRequest (offer\<lparr>reqType := ''LIMIT''\<rparr>))]
        \<and> SubmitFundingOffer tr hist offer
          = SubmitFundingOffer tr hist (offer\<lparr>reqType := ''LIMIT''\<rparr>))"
proof (intro conjI impI)
  assume "reqSymbol offer = [] \<or> reqAmount offer = [] \<or> reqRate offer = []
      \<or> reqPeriod offer < 2 \<or> 120 < reqPeriod offer"
  then show "\<exists>m. SubmitFundingOffer tr hist offer = (Returned (Inl (ValidationError m)), hist)"
    by (auto simp: SubmitFundingOffer_def)
next
  assume ok: "reqSymbol offer \<noteq> [] \<and> reqAmount offer \<noteq> [] \<and> reqRate offer \<noteq> []
      \<and> 2 \<le> reqPeriod offer \<and> reqPeriod offer \<le> 120 \<and> reqType offer = []"
  then show "snd (SubmitFundingOffer tr hist offer)
          = hist @ [Request (submitRequest (offer\<lparr>reqType := ''LIMIT''\<rparr>))]"
    by (auto simp: SubmitFundingOffer_def SendRequest_def Let_def split: reply.splits)
  from ok show "SubmitFundingOffer tr hist offer
          = SubmitFundingOffer tr hist (offer\<lparr>reqType := ''LIMIT''\<rparr>)"
    by (simp add: SubmitFundingOffer_def)
qed

theorem SubmitFundingOffer_validates_witness:
  "SubmitFundingOffer (\<lambda>h r. SendFailed ''unreachable'') []
     \<lparr> reqType = ''LIMIT'', reqSymbol = ''fUSD'', reqAmount = ''200.00'', reqRate = ''0.000150'',
       reqPeriod = 1, reqFlags = 0 \<rparr>
     = (Returned (Inl (ValidationError ''period must be between 2 and 120 days'')), [])
   \<and> SubmitFundingOffer (\<lambda>h r. SendFailed ''unreachable'') []
     \<lparr> reqType = ''LIMIT'', reqSymbol = ''fUSD'', reqAmount = ''200.00'', reqRate = ''0.000150'',
       reqPeriod = 121, reqFlags = 0 \<rparr>
     = (Returned (Inl (ValidationError ''period must be between 2 and 120 days'')), [])
   \<and> snd (SubmitFundingOffer (\<lambda>h r. SendFailed ''unreachable'') []
     \<lparr> reqType = [], reqSymbol = ''fUSD'', reqAmount = ''200.00'', reqRate = ''0.000150'',
       reqPeriod = 2, reqFlags = 0 \<rparr>)
     = [Request (''POST'', ''v2/auth/w/funding/offer/submit'',
          OfferBody \<lparr> reqType = ''LIMIT'', reqSymbol = ''fUSD'', reqAmount = ''200.00'',
                      reqRate = ''0.000150'', reqPeriod = 2, reqFlags = 0 \<rparr>)]"
  using SubmitFundingOffer_validates [of
      "\<lparr> reqType = ''LIMIT'', reqSymbol = ''fUSD'', reqAmount = ''200.00'', reqRate = ''0.000150'',
         reqPeriod = 1, reqFlags = 0 \<rparr>" "\<lambda>h r. SendFailed ''unreachable''" "[]"]
    SubmitFundingOffer_validates [of
      "\<lparr> reqType = ''LIMIT'', reqSymbol = ''fUSD'', reqAmount = ''200.00'', reqRate = ''0.000150'',
         reqPeriod = 121, reqFlags = 0 \<rparr>" "\<lambda>h r. SendFailed ''unreachable''" "[]"]
    SubmitFundingOffer_validates [of
      "\<lparr> reqType = [], reqSymbol = ''fUSD'', reqAmount = ''200.00'', reqRate = ''0.000150'',
         reqPeriod = 2, reqFlags = 0 \<rparr>" "\<lambda>h r. SendFailed ''unreachable''" "[]"]
  by (simp add: SubmitFundingOffer_def submitRequest_def SendRequest_def)

section \<open>The response of a cancellation\<close>

text \<open>
  Claim C5, as stated, fails: a response with fewer than seven entries carries no marker
  at index 6, and the cancellation returns no error.
\<close>

theorem CancelFundingOffer_short_response_counterexample:
  "fst (CancelFundingOffer
          (\<lambda>h r. Body (JSON (DSlice [DString ''error'', DFloat64 10001, DString ''offer: invalid''])))
          [] 7) = Returned None
   \<and> \<not> carriesSuccess [DString ''error'', DFloat64 10001, DString ''offer: invalid'']"
  by (simp add: CancelFundingOffer_def SendRequest_def checkCancelResponse_def carriesSuccess_def)

text \<open>
  Claim C5, amended. For a response that is a JSON array: with at least seven entries and
  the string \<^verbatim>\<open>SUCCESS\<close> at index 6 the cancellation succeeds; with at least eight entries, a
  string other than \<^verbatim>\<open>SUCCESS\<close> at index 6 and a string at index 7, it fails with the message
  of index 7; with fewer than seven entries it succeeds.
\<close>

theorem CancelFundingOffer_response:
  "tr hist (cancelRequest offerID) = Body respBody \<and> unmarshalSlice respBody = Some response \<longrightarrow>
     (7 \<le> length response \<and> response ! 6 = DString ''SUCCESS''
        \<longrightarrow> fst (CancelFundingOffer tr hist offerID) = Returned None)
   \<and> (8 \<le> length response \<and> response ! 6 = DString status \<and> status \<noteq> ''SUCCESS''
        \<and> response ! 7 = DString msg
        \<longrightarrow> fst (CancelFundingOffer tr hist offerID) = Returned (Some (VenueRejected msg)))
   \<and> (length response < 7 \<longrightarrow> fst (CancelFundingOffer tr hist offerID) = Returned None)"
  by (auto simp: CancelFundingOffer_def SendRequest_def checkCancelResponse_def)

theorem CancelFundingOffer_response_witness:
  "fst (CancelFundingOffer
          (\<lambda>h r. Body (JSON (DSlice [DFloat64 1700000000000, DString ''fon-req'', DNil, DNil, DNil,
                                      DNil, DString ''SUCCESS'', DString ''Offer cancelled''])))
          [] 41) = Returned None
   \<and> fst (CancelFundingOffer
          (\<lambda>h r. Body (JSON (DSlice [DFloat64 1700000000000, DString ''fon-req'', DNil, DNil, DNil,
                                      DNil, DString ''ERROR'', DString ''Offer not found''])))
          [] 41) = Returned (Some (VenueRejected ''Offer not found''))
   \<and> fst (CancelFundingOffer (\<lambda>h r. Body (JSON (DSlice []))) [] 41) = Returned None"
  using
    CancelFundingOffer_response [of
      "\<lambda>h r. Body (JSON (DSlice [DFloat64 1700000000000, DString ''fon-req'', DNil, DNil, DNil,
                                  DNil, DString ''SUCCESS'', DString ''Offer cancelled'']))"
      "[]" 41
      "JSON (DSlice [DFloat64 1700000000000, DString ''fon-req'', DNil, DNil, DNil,
                     DNil, DString ''SUCCESS'', DString ''Offer cancelled''])"
      "[DFloat64 1700000000000, DString ''fon-req'', DNil, DNil, DNil,
        DNil, DString ''SUCCESS'', DString ''Offer cancelled'']" "''ERROR''" "''x''"]
    CancelFundingOffer_response [of
      "\<lambda>h r. Body (JSON (DSlice [DFloat64 1700000000000, DString ''fon-req'', DNil, DNil, DNil,
                                  DNil, DString ''ERROR'', DString ''Offer not found'']))"
      "[]" 41
      "JSON (DSlice [DFloat64 1700000000000, DString ''fon-req'', DNil, DNil, DNil,
                     DNil, DString ''ERROR'', DString ''Offer not found''])"
      "[DFloat64 1700000000000, DString ''fon-req'', DNil, DNil, DNil,
        DNil, DString ''ERROR'', DString ''Offer not found'']" "''ERROR''" "''Offer not found''"]
    CancelFundingOffer_response [of "\<lambda>h r. Body (JSON (DSlice []))" "[]" 41 "JSON (DSlice [])" "[]"
      "''ERROR''" "''x''"]
  by simp

section \<open>The decoders\<close>

lemma statsLoop_acc:
  "statsLoop lib rows stats = stats @ map (statOfRow lib) (filter (statRowOk lib) rows)"
  by (induction rows arbitrary: stats)
     (auto simp: statRowOk_def statOfRow_def split: option.splits)

lemma bookRow_eq:
  "bookRow lib raw = (if bookRowOk lib raw then Some (offerOfRow lib raw) else None)"
  by (auto simp: bookRow_def bookRowOk_def offerOfRow_def split: option.splits)

lemma asksLoop_acc:
  "asksLoop lib rows offers = offers @ eligible lib rows"
  by (induction rows arbitrary: offers)
     (auto simp: eligible_def decodeBook_def bookRow_eq)

lemma lendLoop_acc:
  "lendLoop lib minPeriod rows offers
     = offers @ map (\<lambda>offer. offer\<lparr>Amount := \<bar>Amount offer\<bar>\<rparr>) (eligibleFrom lib minPeriod rows)"
  by (induction rows arbitrary: offers)
     (auto simp: eligibleFrom_def decodeBook_def bookRow_eq)

text \<open>
  Of a payload that is an array of rows, \<^verbatim>\<open>parseFundingStats\<close> returns, with no error, the
  records of the rows that have twelve fields and whose six fields read are numbers, in the
  order of the rows; every other row is left out. The loop that decodes the book in
  \<^verbatim>\<open>FindHighestRateForShortestPeriod\<close> keeps, in the order of the rows, the records of the
  rows that have four fields that are numbers (and, of these, the ones of negative amount,
  which is the filter of the selection); the row \<^verbatim>\<open>[101, 2, 0.00015, -500.0]\<close> gives its
  offer, and a row of three fields beside it is left out.
\<close>

theorem decoders_drop_rows_keep_order:
  "(unmarshalRows data = Some rows \<longrightarrow>
      parseFundingStats lib data = Inr (map (statOfRow lib) (filter (statRowOk lib) rows)))
   \<and> asksLoop lib rows []
       = filter (\<lambda>offer. Amount offer < 0) (map (offerOfRow lib) (filter (bookRowOk lib) rows))
   \<and> asksLoop lib [[DFloat64 101, DFloat64 2, DFloat64 0.00015, DFloat64 (- 500)],
                    [DFloat64 102, DFloat64 2, DFloat64 0.0002]] []
       = [\<lparr> OfferID = 101, Period = 2, Rate = 0.00015, Amount = - 500 \<rparr>]"
proof (intro conjI impI)
  assume "unmarshalRows data = Some rows"
  then show "parseFundingStats lib data = Inr (map (statOfRow lib) (filter (statRowOk lib) rows))"
    by (simp add: parseFundingStats_def statsLoop_acc)
next
  show "asksLoop lib rows []
       = filter (\<lambda>offer. Amount offer < 0) (map (offerOfRow lib) (filter (bookRowOk lib) rows))"
    by (simp add: asksLoop_acc eligible_def decodeBook_def)
next
  show "asksLoop lib [[DFloat64 101, DFloat64 2, DFloat64 0.00015, DFloat64 (- 500)],
                    [DFloat64 102, DFloat64 2, DFloat64 0.0002]] []
       = [\<lparr> OfferID = 101, Period = 2, Rate = 0.00015, Amount = - 500 \<rparr>]"
    by (simp add: bookRow_def truncToInt_def)
qed

theorem decoders_drop_rows_keep_order_witness:
  "parseFundingStats exampleLib
     (JSON (DSlice
        [DSlice [DFloat64 1700000000000, DNil, DNil, DFloat64 0.0002, DFloat64 30, DNil, DNil,
                 DFloat64 1000, DFloat64 800, DNil, DNil, DFloat64 50],
         DSlice [DFloat64 1699999000000, DNil, DNil, DFloat64 0.0003],
         DSlice [DFloat64 1699998000000, DNil, DNil, DBool True, DFloat64 30, DNil, DNil,
                 DFloat64 1000, DFloat64 800, DNil, DNil, DFloat64 50],
         DSlice [DFloat64 1699997000000, DNil, DNil, DFloat64 0.0001, DFloat64 20, DNil, DNil,
                 DFloat64 900, DFloat64 700, DNil, DNil, DFloat64 40]]))
   = Inr [\<lparr> Timestamp = 1700000000000, FRR = 0.0002, AveragePeriod = 30, FundingAmount = 1000,
             FundingAmountUsed = 800, FundingBelowThreshold = 50 \<rparr>,
          \<lparr> Timestamp = 1699997000000, FRR = 0.0001, AveragePeriod = 20, FundingAmount = 900,
             FundingAmountUsed = 700, FundingBelowThreshold = 40 \<rparr>]"
  using decoders_drop_rows_keep_order [of
    "JSON (DSlice
        [DSlice [DFloat64 1700000000000, DNil, DNil, DFloat64 0.0002, DFloat64 30, DNil, DNil,
                 DFloat64 1000, DFloat64 800, DNil, DNil, DFloat64 50],
         DSlice [DFloat64 1699999000000, DNil, DNil, DFloat64 0.0003],
         DSlice [DFloat64 1699998000000, DNil, DNil, DBool True, DFloat64 30, DNil, DNil,
                 DFloat64 1000, DFloat64 800, DNil, DNil, DFloat64 50],
         DSlice [DFloat64 1699997000000, DNil, DNil, DFloat64 0.0001, DFloat64 20, DNil, DNil,
                 DFloat64 900, DFloat64 700, DNil, DNil, DFloat64 40]])"
    "[[DFloat64 1700000000000, DNil, DNil, DFloat64 0.0002, DFloat64 30, DNil, DNil,
                 DFloat64 1000, DFloat64 800, DNil, DNil, DFloat64 50],
         [DFloat64 1699999000000, DNil, DNil, DFloat64 0.0003],
         [DFloat64 1699998000000, DNil, DNil, DBool True, DFloat64 30, DNil, DNil,
                 DFloat64 1000, DFloat64 800, DNil, DNil, DFloat64 50],
         [DFloat64 1699997000000, DNil, DNil, DFloat64 0.0001, DFloat64 20, DNil, DNil,
                 DFloat64 900, DFloat64 700, DNil, DNil, DFloat64 40]]"
    exampleLib]
  by (simp add: statRowOk_def statOfRow_def truncToInt_def)

text \<open>
  Claim C9 fails on the decoder of the wallets. The two decoders above leave out a row with
  a field that is no number; \<^verbatim>\<open>GetWallets\<close> reads the available balance by the type
  assertion \<^verbatim>\<open>wallet[4].(float64)\<close>, and panics on the row
  \<^verbatim>\<open>["funding", "USD", 1000, 0, null]\<close> where \<^verbatim>\<open>GetTotalWalletBalance\<close> still reads the
  total.
\<close>

theorem GetWallets_panics_on_a_null_balance:
  "GetTotalWalletBalance
     (\<lambda>hist rq. Body (JSON (DSlice
        [DSlice [DString ''funding'', DString ''USD'', DFloat64 1000, DFloat64 0, DNil]]))) []
     = (Returned (Inr (1000, 0)), [Request walletsRequest])
   \<and> GetWallets
     (\<lambda>hist rq. Body (JSON (DSlice
        [DSlice [DString ''funding'', DString ''USD'', DFloat64 1000, DFloat64 0, DNil]]))) []
     = (Panicked, [Request walletsRequest])"
  by (simp add: GetTotalWalletBalance_def GetWallets_def SendRequest_def)

section \<open>The highest rate that meets a minimum period\<close>

lemma atLeastAsGood_refl: "atLeastAsGood a a"
  by (simp add: atLeastAsGood_def)

lemma atLeastAsGood_trans: "atLeastAsGood a b \<Longrightarrow> atLeastAsGood b c \<Longrightarrow> atLeastAsGood a c"
  unfolding atLeastAsGood_def by linarith

lemma highestLoop_step:
  "highestLoop (offer # rest) first
     = highestLoop rest (if atLeastAsGood first offer then first else offer)"
  unfolding atLeastAsGood_def by (simp add: not_less)

lemma highestLoop_mem: "highestLoop others first \<in> set (first # others)"
proof (induction others arbitrary: first)
  case Nil
  show ?case by simp
next
  case (Cons offer rest)
  have "highestLoop rest (if atLeastAsGood first offer then first else offer)
          \<in> set ((if atLeastAsGood first offer then first else offer) # rest)"
    by (rule Cons.IH)
  then show ?case
    unfolding highestLoop_step by (cases "atLeastAsGood first offer") auto
qed

lemma highestLoop_first: "atLeastAsGood (highestLoop others first) first"
proof (induction others arbitrary: first)
  case Nil
  show ?case by (simp add: atLeastAsGood_refl)
next
  case (Cons offer rest)
  show ?case
  proof (cases "atLeastAsGood first offer")
    case True
    then show ?thesis unfolding highestLoop_step using Cons.IH [of first] by simp
  next
    case False
    then have "atLeastAsGood offer first"
      unfolding atLeastAsGood_def by linarith
    with Cons.IH [of offer] have "atLeastAsGood (highestLoop rest offer) first"
      by (blast intro: atLeastAsGood_trans)
    with False show ?thesis unfolding highestLoop_step by simp
  qed
qed

lemma highestLoop_others: "x \<in> set others \<Longrightarrow> atLeastAsGood (highestLoop others first) x"
proof (induction others arbitrary: first)
  case Nil
  then show ?case by simp
next
  case (Cons offer rest)
  let ?keep = "if atLeastAsGood first offer then first else offer"
  show ?case
  proof (cases "x = offer")
    case True
    have "atLeastAsGood ?keep offer"
      by (simp add: atLeastAsGood_refl)
    with highestLoop_first [of rest ?keep] show ?thesis
      unfolding highestLoop_step True by (blast intro: atLeastAsGood_trans)
  next
    case False
    with Cons.prems have "x \<in> set rest" by simp
    then show ?thesis unfolding highestLoop_step by (rule Cons.IH)
  qed
qed

lemma eligible_exampleBook:
  "eligible exampleLib exampleBook =
     [\<lparr> OfferID = 11, Period = 30, Rate = 0.0004, Amount = - 100 \<rparr>,
      \<lparr> OfferID = 12, Period = 2, Rate = 0.0002, Amount = - 50 \<rparr>,
      \<lparr> OfferID = 13, Period = 2, Rate = 0.0009, Amount = - 70 \<rparr>,
      \<lparr> OfferID = 14, Period = 2, Rate = 0.0009, Amount = - 20 \<rparr>,
      \<lparr> OfferID = 16, Period = 10, Rate = 0.0004, Amount = - 10 \<rparr>,
      \<lparr> OfferID = 17, Period = 20, Rate = 0.0003, Amount = - 5 \<rparr>]"
  by (simp add: eligible_def decodeBook_def exampleBook_def bookRowOk_def offerOfRow_def truncToInt_def)

lemma unmarshal_exampleBook:
  "unmarshalRows (JSON (DSlice (map DSlice exampleBook))) = Some exampleBook"
  by (simp add: exampleBook_def)

text \<open>
  Claim C2. For a book that is an array of rows and a minimum period: when no decoded
  entry has a negative amount and a period of at least the minimum, the selection fails with
  ``no offers''; otherwise it returns one of these entries, with the absolute value of its
  amount. Its period is at least the minimum, no such entry has a higher rate, and none with
  the same rate has a shorter period.
\<close>

theorem FindHighestLendingRate_selects:
  assumes "unmarshalRows data = Some rows"
  shows "(eligibleFrom lib minPeriod rows = [] \<longrightarrow>
            FindHighestLendingRate lib data minPeriod
              = Inl (NoOffersAvailable ''no valid lending offers found''))
       \<and> (eligibleFrom lib minPeriod rows \<noteq> [] \<longrightarrow>
            (\<exists>entry\<in>set (eligibleFrom lib minPeriod rows).
               FindHighestLendingRate lib data minPeriod = Inr (entry\<lparr>Amount := \<bar>Amount entry\<bar>\<rparr>)
               \<and> minPeriod \<le> Period entry
               \<and> (\<forall>x\<in>set (eligibleFrom lib minPeriod rows).
                     Rate x \<le> Rate entry \<and> (Rate x = Rate entry \<longrightarrow> Period entry \<le> Period x))))"
proof (intro conjI impI)
  assume "eligibleFrom lib minPeriod rows = []"
  with assms show "FindHighestLendingRate lib data minPeriod
              = Inl (NoOffersAvailable ''no valid lending offers found'')"
    by (simp add: FindHighestLendingRate_def lendLoop_acc)
next
  let ?abs = "\<lambda>offer::BitfinexOffer. offer\<lparr>Amount := \<bar>Amount offer\<bar>\<rparr>"
  assume ne: "eligibleFrom lib minPeriod rows \<noteq> []"
  then obtain e es where el: "eligibleFrom lib minPeriod rows = e # es"
    by (cases "eligibleFrom lib minPeriod rows") auto
  let ?r = "highestLoop (map ?abs es) (?abs e)"
  from assms el have res: "FindHighestLendingRate lib data minPeriod = Inr ?r"
    by (simp add: FindHighestLendingRate_def lendLoop_acc)
  have "?r \<in> set (map ?abs (e # es))"
    using highestLoop_mem [of "map ?abs es" "?abs e"] by simp
  then obtain entry where entry: "entry \<in> set (e # es)" "?r = ?abs entry"
    by auto
  have best: "atLeastAsGood ?r (?abs x)" if "x \<in> set (e # es)" for x
    using that highestLoop_first [of "map ?abs es" "?abs e"]
      highestLoop_others [of "?abs x" "map ?abs es" "?abs e"] by auto
  have "minPeriod \<le> Period entry"
    using entry(1) el [symmetric] by (simp add: eligibleFrom_def)
  moreover have "Rate x \<le> Rate entry \<and> (Rate x = Rate entry \<longrightarrow> Period entry \<le> Period x)"
    if "x \<in> set (e # es)" for x
    using best [OF that] entry(2) by (auto simp: atLeastAsGood_def)
  ultimately show "\<exists>entry\<in>set (eligibleFrom lib minPeriod rows).
               FindHighestLendingRate lib data minPeriod = Inr (entry\<lparr>Amount := \<bar>Amount entry\<bar>\<rparr>)
               \<and> minPeriod \<le> Period entry
               \<and> (\<forall>x\<in>set (eligibleFrom lib minPeriod rows).
                     Rate x \<le> Rate entry \<and> (Rate x = Rate entry \<longrightarrow> Period entry \<le> Period x))"
    using entry res el by auto
qed

theorem FindHighestLendingRate_selects_witness:
  "FindHighestLendingRate exampleLib (JSON (DSlice (map DSlice exampleBook))) 3
     = Inr \<lparr> OfferID = 16, Period = 10, Rate = 0.0004, Amount = 10 \<rparr>"
  using FindHighestLendingRate_selects [OF unmarshal_exampleBook, of exampleLib 3]
  by (simp add: FindHighestLendingRate_def exampleBook_def bookRow_def truncToInt_def exampleLib_def)

section \<open>The highest rate for the shortest period\<close>

lemma mset_insertLess: "mset (insertLess lt x xs) = add_mset x (mset xs)"
  by (induction xs) auto

lemma mset_insertionSort: "mset (insertionSort lt xs) = mset xs"
  by (induction xs) (auto simp: mset_insertLess)

lemma set_insertLess: "set (insertLess lt x xs) = insert x (set xs)"
  using mset_insertLess [of lt x xs] by (metis set_mset_add_mset_insert set_mset_mset)

lemma sorted_insertLess:
  "sorted_wrt (\<lambda>a b. \<not> periodLess b a) xs
   \<Longrightarrow> sorted_wrt (\<lambda>a b. \<not> periodLess b a) (insertLess periodLess x xs)"
  by (induction xs) (auto simp: set_insertLess periodLess_def)

lemma sorted_insertionSort:
  "sorted_wrt (\<lambda>a b. \<not> periodLess b a) (insertionSort periodLess xs)"
  by (induction xs) (auto simp: sorted_insertLess)

lemma filter_insertLess:
  "filter (\<lambda>offer. Period offer = p) (insertLess periodLess x xs)
     = (if Period x = p then x # filter (\<lambda>offer. Period offer = p) xs
        else filter (\<lambda>offer. Period offer = p) xs)"
  by (induction xs) (auto simp: periodLess_def)

lemma stable_insertionSort:
  "filter (\<lambda>offer. Period offer = p) (insertionSort periodLess xs)
     = filter (\<lambda>offer. Period offer = p) xs"
  by (induction xs) (auto simp: filter_insertLess)

lemma bestLoop_filter:
  "bestLoop sp xs b h = bestLoop sp (filter (\<lambda>offer. Period offer = sp) xs) b h"
  by (induction xs arbitrary: b h) auto

lemma bestLoop_none:
  "\<forall>offer\<in>set ys. Rate offer \<le> h \<Longrightarrow> bestLoop sp ys b h = b"
  by (induction ys arbitrary: b h) auto

lemma bestLoop_some:
  assumes "\<forall>offer\<in>set ys. Period offer = sp" and "\<exists>offer\<in>set ys. h < Rate offer"
  shows "bestLoop sp ys b h \<in> set ys
       \<and> h < Rate (bestLoop sp ys b h)
       \<and> (\<forall>offer\<in>set ys. Rate offer \<le> Rate (bestLoop sp ys b h))
       \<and> bestLoop sp ys b h = hd (filter (\<lambda>offer. Rate offer = Rate (bestLoop sp ys b h)) ys)"
  using assms
proof (induction ys arbitrary: b h)
  case Nil
  then show ?case by simp
next
  case (Cons y ys)
  from Cons.prems(1) have per: "Period y = sp" "\<forall>offer\<in>set ys. Period offer = sp" by auto
  show ?case
  proof (cases "h < Rate y")
    case True
    then have step: "bestLoop sp (y # ys) b h = bestLoop sp ys y (Rate y)"
      using per by simp
    show ?thesis
    proof (cases "\<exists>offer\<in>set ys. Rate y < Rate offer")
      case ex: True
      from Cons.IH [OF per(2) ex, of y] True show ?thesis
        unfolding step by auto
    next
      case False
      then have "bestLoop sp ys y (Rate y) = y"
        by (intro bestLoop_none) (auto simp: not_less)
      with True False show ?thesis unfolding step by (auto simp: not_less)
    qed
  next
    case False
    then have step: "bestLoop sp (y # ys) b h = bestLoop sp ys b h"
      by simp
    from False Cons.prems(2) have ex: "\<exists>offer\<in>set ys. h < Rate offer" by auto
    from Cons.IH [OF per(2) ex, of b] False show ?thesis
      unfolding step by auto
  qed
qed


text \<open>
  Claim C1 fails on the code. The search for the highest rate starts from \<open>- 1\<close> and takes
  an entry only when its rate is above the highest so far: when no entry of the shortest
  period has a rate above \<open>- 1\<close>, the selection returns the zero value of an offer, with no
  error. Here the book holds one ask, of period 2 and rate \<open>- 1\<close>.
\<close>

theorem FindHighestRateForShortestPeriod_returns_the_zero_offer:
  "FindHighestRateForShortestPeriod exampleLib
     (JSON (DSlice [DSlice [DFloat64 1, DFloat64 2, DFloat64 (- 1), DFloat64 (- 500)]]))
     = Inr \<lparr> OfferID = 0, Period = 0, Rate = 0, Amount = 0 \<rparr>
   \<and> eligible exampleLib [[DFloat64 1, DFloat64 2, DFloat64 (- 1), DFloat64 (- 500)]]
     = [\<lparr> OfferID = 1, Period = 2, Rate = - 1, Amount = - 500 \<rparr>]"
  by (simp add: FindHighestRateForShortestPeriod_def bookRow_def truncToInt_def exampleLib_def
      periodLess_def zeroOffer_def eligible_def decodeBook_def bookRowOk_def offerOfRow_def)

text \<open>The other selection starts its search from the first eligible entry, and returns
  the entry of that book.\<close>

lemma FindHighestLendingRate_on_that_book:
  "FindHighestLendingRate exampleLib
     (JSON (DSlice [DSlice [DFloat64 1, DFloat64 2, DFloat64 (- 1), DFloat64 (- 500)]])) 2
     = Inr \<lparr> OfferID = 1, Period = 2, Rate = - 1, Amount = 500 \<rparr>"
  by (simp add: FindHighestLendingRate_def bookRow_def truncToInt_def)

text \<open>
  Where it holds. For a book that is an array of rows with at least one decoded entry of
  negative amount, where some such entry of the shortest period has a rate above \<open>- 1\<close>, and
  \<^verbatim>\<open>sort.Slice\<close> returns its input sorted by period: the selection returns one of these
  entries; its period is the shortest, and no entry of that period has a higher rate. Of the
  entries of that period and rate it is the first in the sorted slice, and so the first of
  the input when the sort has kept the entries of that period in the order of the input
  (which \<^verbatim>\<open>sort.Slice\<close> does not promise).
\<close>

theorem FindHighestRateForShortestPeriod_selects:
  assumes rows: "unmarshalRows data = Some rows"
    and ne: "eligible lib rows \<noteq> []"
    and perm: "mset (sortSlice lib periodLess (eligible lib rows)) = mset (eligible lib rows)"
    and srt: "sorted_wrt (\<lambda>a b. \<not> periodLess b a) (sortSlice lib periodLess (eligible lib rows))"
    and rate: "\<exists>offer\<in>set (eligible lib rows).
                 (\<forall>x\<in>set (eligible lib rows). Period offer \<le> Period x) \<and> - 1 < Rate offer"
  shows "\<exists>best\<in>set (eligible lib rows).
           FindHighestRateForShortestPeriod lib data = Inr best
         \<and> (\<forall>x\<in>set (eligible lib rows). Period best \<le> Period x)
         \<and> (\<forall>x\<in>set (eligible lib rows). Period x = Period best \<longrightarrow> Rate x \<le> Rate best)
         \<and> best = hd (filter (\<lambda>x. Period x = Period best \<and> Rate x = Rate best)
                        (sortSlice lib periodLess (eligible lib rows)))
         \<and> (filter (\<lambda>x. Period x = Period best) (sortSlice lib periodLess (eligible lib rows))
              = filter (\<lambda>x. Period x = Period best) (eligible lib rows)
            \<longrightarrow> best = hd (filter (\<lambda>x. Period x = Period best \<and> Rate x = Rate best)
                             (eligible lib rows)))"
proof -
  let ?asks = "eligible lib rows"
  let ?s = "sortSlice lib periodLess ?asks"
  let ?sp = "Period (?s ! 0)"
  let ?ys = "filter (\<lambda>offer. Period offer = ?sp) ?s"
  let ?best = "bestLoop ?sp ?ys zeroOffer (- 1)"
  have sets: "set ?s = set ?asks"
    using perm by (metis set_mset_mset)
  from ne sets have sne: "?s \<noteq> []" by auto
  then obtain z zs where s: "?s = z # zs" by (cases ?s) auto
  have z: "?s ! 0 = z" by (simp add: s)
  have zmin: "Period z \<le> Period x" if "x \<in> set ?asks" for x
  proof -
    from that sets have "x = z \<or> x \<in> set zs" unfolding s by auto
    moreover have "\<forall>y\<in>set zs. \<not> Period y < Period z"
      using srt unfolding s by (simp add: periodLess_def)
    ultimately show ?thesis by (auto simp: not_less)
  qed
  have zin: "z \<in> set ?asks" using sets s by auto
  from rate obtain m where m: "m \<in> set ?asks" "\<forall>x\<in>set ?asks. Period m \<le> Period x" "- 1 < Rate m"
    by auto
  have "Period m = Period z"
    using m(1,2) zin zmin [OF m(1)] by (auto intro: antisym)
  with m sets have ex: "\<exists>offer\<in>set ?ys. - 1 < Rate offer"
    by (auto simp: z)
  have per: "\<forall>offer\<in>set ?ys. Period offer = ?sp" by simp
  note b = bestLoop_some [OF per ex, of zeroOffer]
  have res: "FindHighestRateForShortestPeriod lib data = Inr ?best"
    using rows ne
    by (simp add: FindHighestRateForShortestPeriod_def asksLoop_acc Let_def bestLoop_filter [symmetric])
  from b have bin: "?best \<in> set ?asks" and bper: "Period ?best = Period z"
    using sets by (auto simp: z)
  have c2: "\<forall>x\<in>set ?asks. Period ?best \<le> Period x"
    using zmin bper by simp
  have c3: "\<forall>x\<in>set ?asks. Period x = Period ?best \<longrightarrow> Rate x \<le> Rate ?best"
    using b sets bper by (auto simp: z)
  have ff: "filter (\<lambda>x. Period x = Period ?best \<and> Rate x = Rate ?best) xs
          = filter (\<lambda>x. Rate x = Rate ?best) (filter (\<lambda>x. Period x = Period ?best) xs)"
    for xs :: "BitfinexOffer list"
    by (simp add: conj_commute)
  have ys: "?ys = filter (\<lambda>x. Period x = Period ?best) ?s"
    using bper by (simp add: z)
  have c4: "?best = hd (filter (\<lambda>x. Period x = Period ?best \<and> Rate x = Rate ?best) ?s)"
    unfolding ff ys [symmetric] using b by blast
  have c5: "?best = hd (filter (\<lambda>x. Period x = Period ?best \<and> Rate x = Rate ?best) ?asks)"
    if "filter (\<lambda>x. Period x = Period ?best) ?s = filter (\<lambda>x. Period x = Period ?best) ?asks"
    using c4 unfolding ff that .
  show ?thesis
    using bin res c2 c3 c4 c5 by blast
qed

lemma best_exampleBook:
  "FindHighestRateForShortestPeriod exampleLib (JSON (DSlice (map DSlice exampleBook)))
     = Inr \<lparr> OfferID = 13, Period = 2, Rate = 0.0009, Amount = - 70 \<rparr>"
proof -
  have srt: "sortSlice exampleLib = insertionSort" by (simp add: exampleLib_def)
  show ?thesis
    unfolding FindHighestRateForShortestPeriod_def unmarshal_exampleBook
    by (simp add: asksLoop_acc eligible_exampleBook srt periodLess_def zeroOffer_def)
qed

theorem FindHighestRateForShortestPeriod_selects_witness:
  "FindHighestRateForShortestPeriod exampleLib (JSON (DSlice (map DSlice exampleBook)))
     = Inr \<lparr> OfferID = 13, Period = 2, Rate = 0.0009, Amount = - 70 \<rparr>
   \<and> (\<exists>best\<in>set (eligible exampleLib exampleBook).
           FindHighestRateForShortestPeriod exampleLib (JSON (DSlice (map DSlice exampleBook))) = Inr best
         \<and> (\<forall>x\<in>set (eligible exampleLib exampleBook). Period best \<le> Period x)
         \<and> (\<forall>x\<in>set (eligible exampleLib exampleBook). Period x = Period best \<longrightarrow> Rate x \<le> Rate best)
         \<and> best = hd (filter (\<lambda>x. Period x = Period best \<and> Rate x = Rate best)
                        (sortSlice exampleLib periodLess (eligible exampleLib exampleBook)))
         \<and> (filter (\<lambda>x. Period x = Period best) (sortSlice exampleLib periodLess (eligible exampleLib exampleBook))
              = filter (\<lambda>x. Period x = Period best) (eligible exampleLib exampleBook)
            \<longrightarrow> best = hd (filter (\<lambda>x. Period x = Period best \<and> Rate x = Rate best)
                             (eligible exampleLib exampleBook))))"
proof
  show "FindHighestRateForShortestPeriod exampleLib (JSON (DSlice (map DSlice exampleBook)))
     = Inr \<lparr> OfferID = 13, Period = 2, Rate = 0.0009, Amount = - 70 \<rparr>"
    by (rule best_exampleBook)
next
  have srt: "sortSlice exampleLib = insertionSort" by (simp add: exampleLib_def)
  have h3: "mset (sortSlice exampleLib periodLess (eligible exampleLib exampleBook))
            = mset (eligible exampleLib exampleBook)"
    unfolding srt by (rule mset_insertionSort)
  have h4: "sorted_wrt (\<lambda>a b. \<not> periodLess b a)
              (sortSlice exampleLib periodLess (eligible exampleLib exampleBook))"
    unfolding srt by (rule sorted_insertionSort)
  have h2: "eligible exampleLib exampleBook \<noteq> []"
    by (simp add: eligible_exampleBook)
  have h5: "\<exists>offer\<in>set (eligible exampleLib exampleBook).
                 (\<forall>x\<in>set (eligible exampleLib exampleBook). Period offer \<le> Period x) \<and> - 1 < Rate offer"
    by (simp add: eligible_exampleBook)
  show "\<exists>best\<in>set (eligible exampleLib exampleBook).
           FindHighestRateForShortestPeriod exampleLib (JSON (DSlice (map DSlice exampleBook))) = Inr best
         \<and> (\<forall>x\<in>set (eligible exampleLib exampleBook). Period best \<le> Period x)
         \<and> (\<forall>x\<in>set (eligible exampleLib exampleBook). Period x = Period best \<longrightarrow> Rate x \<le> Rate best)
         \<and> best = hd (filter (\<lambda>x. Period x = Period best \<and> Rate x = Rate best)
                        (sortSlice exampleLib periodLess (eligible exampleLib exampleBook)))
         \<and> (filter (\<lambda>x. Period x = Period best) (sortSlice exampleLib periodLess (eligible exampleLib exampleBook))
              = filter (\<lambda>x. Period x = Period best) (eligible exampleLib exampleBook)
            \<longrightarrow> best = hd (filter (\<lambda>x. Period x = Period best \<and> Rate x = Rate best)
                             (eligible exampleLib exampleBook)))"
    by (rule FindHighestRateForShortestPeriod_selects [OF unmarshal_exampleBook h2 h3 h4 h5])
qed

text \<open>The sort matters for the ties: a sort that returns its input sorted by period, with
  entries of the same period in the reverse order of the input, makes the selection return
  offer 14 of the example, the last of the two entries of period 2 and rate 0.0009.\<close>

lemma FindHighestRateForShortestPeriod_reversing_sort:
  "FindHighestRateForShortestPeriod
     (exampleLib\<lparr>sortSlice := (\<lambda>lt xs. insertionSort lt (rev xs))\<rparr>)
     (JSON (DSlice (map DSlice exampleBook)))
     = Inr \<lparr> OfferID = 14, Period = 2, Rate = 0.0009, Amount = - 20 \<rparr>"
proof -
  have el: "eligible (exampleLib\<lparr>sortSlice := (\<lambda>lt xs. insertionSort lt (rev xs))\<rparr>) exampleBook
            = eligible exampleLib exampleBook"
    by (simp add: eligible_def decodeBook_def exampleBook_def bookRowOk_def offerOfRow_def
        exampleLib_def)
  show ?thesis
    unfolding FindHighestRateForShortestPeriod_def unmarshal_exampleBook
    by (simp add: asksLoop_acc el eligible_exampleBook periodLess_def zeroOffer_def)
qed

section \<open>Cancelling the tracked orders\<close>

lemma CancelFundingOffer_hist:
  "snd (CancelFundingOffer tr hist offerID) = hist @ [Request (cancelRequest offerID)]"
  by (simp add: CancelFundingOffer_def SendRequest_def split: reply.splits option.splits)

lemma cancelLoop_shape:
  "(\<exists>k. cancelLoop tr hist orders
          = (Crashed, hist @ map (\<lambda>order. Request (cancelRequest (cpoID order))) (take k orders)))
   \<or> cancelLoop tr hist orders
          = (Next (), hist @ map (\<lambda>order. Request (cancelRequest (cpoID order))) orders)"
proof (induction orders arbitrary: hist)
  case Nil
  show ?case by simp
next
  case (Cons order rest)
  let ?c = "\<lambda>order. Request (cancelRequest (cpoID order))"
  obtain r where step: "CancelFundingOffer tr hist (cpoID order) = (r, hist @ [?c order])"
    using CancelFundingOffer_hist [of tr hist "cpoID order"]
    by (metis prod.collapse)
  show ?case
  proof (cases r)
    case Panicked
    with step have "cancelLoop tr hist (order # rest) = (Crashed, hist @ map ?c (take 1 (order # rest)))"
      by simp
    then show ?thesis by blast
  next
    case (Returned err)
    with step have eq: "cancelLoop tr hist (order # rest) = cancelLoop tr (hist @ [?c order]) rest"
      by simp
    from Cons.IH [of "hist @ [?c order]"] show ?thesis
    proof
      assume "\<exists>k. cancelLoop tr (hist @ [?c order]) rest
                 = (Crashed, (hist @ [?c order]) @ map ?c (take k rest))"
      then obtain k where "cancelLoop tr (hist @ [?c order]) rest
                 = (Crashed, (hist @ [?c order]) @ map ?c (take k rest))" ..
      then have "cancelLoop tr hist (order # rest)
                 = (Crashed, hist @ map ?c (take (Suc k) (order # rest)))"
        unfolding eq by simp
      then show ?thesis by blast
    next
      assume "cancelLoop tr (hist @ [?c order]) rest
                 = (Next (), (hist @ [?c order]) @ map ?c rest)"
      then show ?thesis unfolding eq by simp
    qed
  qed
qed

lemma cancelExisting_shape:
  assumes "currentOrderBool st = (currentPredictOrder st \<noteq> [])"
  shows "(\<exists>k. cancelExisting tr hist st
            = (Crashed,
               hist @ map (\<lambda>order. Request (cancelRequest (cpoID order))) (take k (currentPredictOrder st)),
               st))
       \<or> cancelExisting tr hist st
            = (Next (),
               hist @ map (\<lambda>order. Request (cancelRequest (cpoID order))) (currentPredictOrder st),
               st\<lparr>currentPredictOrder := [], currentOrderBool := False\<rparr>)"
proof (cases "currentOrderBool st")
  case True
  from cancelLoop_shape [of tr hist "currentPredictOrder st"] True show ?thesis
    by (auto simp: cancelExisting_def)
next
  case False
  with assms have "currentPredictOrder st = []" by simp
  with False show ?thesis by (simp add: cancelExisting_def)
qed

lemma SubmitFundingOffer_shape:
  assumes "reqType offer \<noteq> []"
  shows "(\<exists>m. SubmitFundingOffer tr hist offer = (Returned (Inl (ValidationError m)), hist))
       \<or> snd (SubmitFundingOffer tr hist offer) = hist @ [Request (submitRequest offer)]"
  using assms
  by (auto simp: SubmitFundingOffer_def SendRequest_def split: reply.splits)

lemma GetFundingStat_hist:
  "snd (GetFundingStat lib tr hist symbol)
     = hist @ [Request (''GET'', ''v2/funding/stats/'' @ symbol @ ''/hist'', NoBody)]"
  by (simp add: GetFundingStat_def SendRequest_def split: reply.splits)

lemma cancelLoop_returns:
  assumes "\<forall>h. \<forall>order\<in>set orders. fst (CancelFundingOffer tr h (cpoID order)) \<noteq> Panicked"
  shows "cancelLoop tr hist orders
           = (Next (), hist @ map (\<lambda>order. Request (cancelRequest (cpoID order))) orders)"
  using assms
proof (induction orders arbitrary: hist)
  case Nil
  show ?case by simp
next
  case (Cons order rest)
  have sent: "snd (CancelFundingOffer tr hist (cpoID order)) = hist @ [Request (cancelRequest (cpoID order))]"
    by (simp add: CancelFundingOffer_def SendRequest_def split: reply.splits option.splits)
  from Cons.prems have "fst (CancelFundingOffer tr hist (cpoID order)) \<noteq> Panicked"
    by simp
  then obtain err where "fst (CancelFundingOffer tr hist (cpoID order)) = Returned err"
    by (cases "fst (CancelFundingOffer tr hist (cpoID order))") auto
  with sent have step: "CancelFundingOffer tr hist (cpoID order)
                         = (Returned err, hist @ [Request (cancelRequest (cpoID order))])"
    by (metis prod.collapse)
  from Cons.prems have rest: "\<forall>h. \<forall>order\<in>set rest. fst (CancelFundingOffer tr h (cpoID order)) \<noteq> Panicked"
    by simp
  show ?case
    by (simp add: step Cons.IH [OF rest])
qed

lemma cancel41: "CancelFundingOffer exampleVenue h 41
    = (Returned (Some (VenueRejected ''Offer not found'')), h @ [Request (cancelRequest 41)])"
  by (simp add: CancelFundingOffer_def SendRequest_def cancelRequest_def checkCancelResponse_def)

lemma cancel42: "CancelFundingOffer exampleVenue h 42
    = (Returned None, h @ [Request (cancelRequest 42)])"
  by (simp add: CancelFundingOffer_def SendRequest_def cancelRequest_def checkCancelResponse_def)

text \<open>
  With the flag set exactly when an order is tracked, and every cancellation returning
  (with an error or with none): the block that cancels the tracked orders calls the
  cancellation once for every tracked order, in order, whatever errors the calls before
  returned, and leaves no order tracked and the flag unset.
\<close>

theorem cancelExisting_attempts_all_then_clears:
  assumes "currentOrderBool st = (currentPredictOrder st \<noteq> [])"
    and "\<forall>h. \<forall>order\<in>set (currentPredictOrder st).
           fst (CancelFundingOffer tr h (cpoID order)) \<noteq> Panicked"
  shows "cancelExisting tr hist st
           = (Next (),
              hist @ map (\<lambda>order. Request (cancelRequest (cpoID order))) (currentPredictOrder st),
              st\<lparr>currentPredictOrder := [], currentOrderBool := False\<rparr>)"
proof (cases "currentOrderBool st")
  case True
  then show ?thesis
    by (simp add: cancelExisting_def cancelLoop_returns [OF assms(2)])
next
  case False
  with assms(1) have "currentPredictOrder st = []" by simp
  with False show ?thesis
    by (simp add: cancelExisting_def)
qed

theorem cancelExisting_attempts_all_then_clears_witness:
  "fst (CancelFundingOffer exampleVenue [] 41) = Returned (Some (VenueRejected ''Offer not found''))
   \<and> cancelExisting exampleVenue [] exampleTracking
     = (Next (), [Request (cancelRequest 41), Request (cancelRequest 42)],
        \<lparr> currentPredictOrder = [], currentOrderBool = False \<rparr>)"
proof -
  have inv: "currentOrderBool exampleTracking = (currentPredictOrder exampleTracking \<noteq> [])"
    by (simp add: exampleTracking_def)
  have ret: "\<forall>h. \<forall>order\<in>set (currentPredictOrder exampleTracking).
           fst (CancelFundingOffer exampleVenue h (cpoID order)) \<noteq> Panicked"
    by (simp add: exampleTracking_def cancel41 cancel42)
  from cancelExisting_attempts_all_then_clears [OF inv ret, of "[]"] show ?thesis
    by (simp add: exampleTracking_def cancel41)
qed


section \<open>The predictive leg\<close>

lemma submit_not_cancel:
  "Request (submitRequest offer) \<notin> set (map (\<lambda>order. Request (cancelRequest (cpoID order))) orders)"
  by (auto simp: submitRequest_def cancelRequest_def)

lemma stats_example:
  "GetFundingStat exampleLib exampleVenue h ''fUSD''
     = (Inr [\<lparr> Timestamp = 1700000000000, FRR = 0.0002, AveragePeriod = 30, FundingAmount = 1000,
             FundingAmountUsed = 800, FundingBelowThreshold = 50 \<rparr>],
        h @ [Request (''GET'', ''v2/funding/stats/fUSD/hist'', NoBody)])"
  by (simp add: GetFundingStat_def SendRequest_def parseFundingStats_def exampleStats_def truncToInt_def)

lemma submit_example:
  "SubmitFundingOffer exampleVenue h examplePredict
     = (Returned (Inr \<lparr> foID = 77, foSymbol = ''fUSD'', foCreatedAt = 1700000000000000000,
            foUpdatedAt = 1700000000000000000, foAmount = 200, foAmountOriginal = 200,
            foType = ''LIMIT'', foFlags = 0, foStatus = ''ACTIVE'', foRate = 0.00026,
            foPeriod = 2, foNotify = False, foHidden = 0, foRenew = False \<rparr>),
        h @ [Request (submitRequest examplePredict)])"
  by (simp add: SubmitFundingOffer_def SendRequest_def examplePredict_def submitRequest_def
      parseSubmitResponse_def exampleAccepted_def offerOfData_def truncToInt_def wrap64_def)

lemma leg_example:
  "predictiveLeg exampleWorld [] exampleTracking 200 200
     = (Next (),
        [] @ [Request (''GET'', ''v2/funding/stats/fUSD/hist'', NoBody),
         Request (cancelRequest 41), Request (cancelRequest 42),
         Request (submitRequest examplePredict)],
        \<lparr> currentPredictOrder =
            [\<lparr> cpoID = 77, cpoRate = 0.00026, cpoPeriod = 2, cpoSince = 1700000000000000000 \<rparr>],
          currentOrderBool = True \<rparr>)"
proof -
  have po: "predictOffer exampleLib 200 s = examplePredict" if "FRR s = 1 / 5000" for s
    using that by (simp add: predictOffer_def examplePredict_def exampleLib_def)
  have w: "venue exampleWorld = exampleVenue" "stdlib exampleWorld = exampleLib"
    by (simp_all add: exampleWorld_def)
  have c: "cancelExisting exampleVenue h exampleTracking
     = (Next (), h @ [Request (cancelRequest 41), Request (cancelRequest 42)],
        \<lparr> currentPredictOrder = [], currentOrderBool = False \<rparr>)" for h
    by (simp add: cancelExisting_def exampleTracking_def cancel41 cancel42)
  show ?thesis
    unfolding predictiveLeg_def w
    by (simp add: stats_example c po submit_example trackedOf_def)
qed

text \<open>
  Claim C7. With the flag set exactly when an order is tracked: when the predictive leg
  sends the submission of an offer, what it has sent is the request for the statistics, then
  one cancellation for every order that was tracked, then that submission, and nothing else;
  the offer is for 2 days; and after the leg the tracked orders are the new order alone when
  the submission returned an offer, and none when it returned an error.
\<close>

theorem predictiveLeg_replaces_tracked_order:
  assumes inv: "currentOrderBool st = (currentPredictOrder st \<noteq> [])"
    and run: "predictiveLeg w hist st available remainPredict = (fl, hist @ new, st')"
    and sub: "Request (submitRequest offer) \<in> set new"
  shows "new = Request (''GET'', ''v2/funding/stats/fUSD/hist'', NoBody)
              # map (\<lambda>order. Request (cancelRequest (cpoID order))) (currentPredictOrder st)
              @ [Request (submitRequest offer)]
       \<and> reqPeriod offer = 2
       \<and> (\<forall>res. fst (SubmitFundingOffer (venue w) (butlast (hist @ new)) offer) = Returned (Inr res)
             \<longrightarrow> fl = Next () \<and> currentPredictOrder st' = [trackedOf res] \<and> currentOrderBool st')
       \<and> (\<forall>e. fst (SubmitFundingOffer (venue w) (butlast (hist @ new)) offer) = Returned (Inl e)
             \<longrightarrow> fl = Next () \<and> currentPredictOrder st' = [] \<and> \<not> currentOrderBool st')
       \<and> (fst (SubmitFundingOffer (venue w) (butlast (hist @ new)) offer) = Panicked
             \<longrightarrow> fl = Crashed)"
proof -
  let ?c = "\<lambda>order. Request (cancelRequest (cpoID order))"
  let ?g = "Request (''GET'', ''v2/funding/stats/fUSD/hist'', NoBody)"
  let ?clamped = "if available < remainPredict then available else remainPredict"
  have go: "150 < remainPredict \<and> 150 < ?clamped"
  proof (rule ccontr)
    assume "\<not> ?thesis"
    then have "predictiveLeg w hist st available remainPredict = (Next (), hist, st)"
      by (auto simp: predictiveLeg_def Let_def)
    with run sub show False by auto
  qed
  obtain sr where sr: "GetFundingStat (stdlib w) (venue w) hist ''fUSD'' = (sr, hist @ [?g])"
    using GetFundingStat_hist [of "stdlib w" "venue w" hist "''fUSD''"]
    by (metis append_Cons append_Nil prod.collapse)
  have g_ne: "Request (submitRequest offer) \<noteq> ?g"
    by (simp add: submitRequest_def)
  obtain stats where stats: "sr = Inr stats" "stats \<noteq> []"
  proof (cases sr)
    case (Inl e)
    with go sr have "predictiveLeg w hist st available remainPredict = (ReturnNow, hist @ [?g], st)"
      by (simp add: predictiveLeg_def Let_def)
    with run sub g_ne show ?thesis by auto
  next
    case (Inr stats)
    show ?thesis
    proof (cases "stats = []")
      case True
      with go sr Inr have "predictiveLeg w hist st available remainPredict = (Next (), hist @ [?g], st)"
        by (simp add: predictiveLeg_def Let_def)
      with run sub g_ne show ?thesis by auto
    next
      case False
      with Inr that show ?thesis by blast
    qed
  qed
  let ?po = "predictOffer (stdlib w) ?clamped (stats ! 0)"
  let ?h2 = "(hist @ [?g]) @ map ?c (currentPredictOrder st)"
  let ?st2 = "st\<lparr>currentPredictOrder := [], currentOrderBool := False\<rparr>"
  have leg: "predictiveLeg w hist st available remainPredict
      = (case cancelExisting (venue w) (hist @ [?g]) st of
           (Next u, hist2, st2) \<Rightarrow>
             (case SubmitFundingOffer (venue w) hist2 ?po of
                (Panicked, hist3) \<Rightarrow> (Crashed, hist3, st2)
              | (Returned (Inl e), hist3) \<Rightarrow> (Next (), hist3, st2)
              | (Returned (Inr res), hist3) \<Rightarrow>
                  (Next (), hist3,
                   st2\<lparr>currentPredictOrder := currentPredictOrder st2 @ [trackedOf res],
                       currentOrderBool := True\<rparr>))
         | (Crashed, hist2, st2) \<Rightarrow> (Crashed, hist2, st2)
         | (Fatal m, hist2, st2) \<Rightarrow> (Fatal m, hist2, st2)
         | (ReturnNow, hist2, st2) \<Rightarrow> (ReturnNow, hist2, st2))"
    using go sr stats by (simp add: predictiveLeg_def Let_def)
  have cancelled: "cancelExisting (venue w) (hist @ [?g]) st = (Next (), ?h2, ?st2)"
  proof (rule disjE [OF cancelExisting_shape [OF inv, of "venue w" "hist @ [?g]"]])
    assume "\<exists>k. cancelExisting (venue w) (hist @ [?g]) st
              = (Crashed, (hist @ [?g]) @ map ?c (take k (currentPredictOrder st)), st)"
    then obtain k where "cancelExisting (venue w) (hist @ [?g]) st
              = (Crashed, (hist @ [?g]) @ map ?c (take k (currentPredictOrder st)), st)" ..
    with leg run have "new = ?g # map ?c (take k (currentPredictOrder st))"
      by simp
    with sub g_ne submit_not_cancel [of offer "take k (currentPredictOrder st)"] show ?thesis
      by simp
  qed
  have ty: "reqType ?po \<noteq> []" by (simp add: predictOffer_def)
  obtain r h3 where s3: "SubmitFundingOffer (venue w) ?h2 ?po = (r, h3)"
    by (cases "SubmitFundingOffer (venue w) ?h2 ?po") auto
  have leg2: "predictiveLeg w hist st available remainPredict
      = (case r of
           Panicked \<Rightarrow> (Crashed, h3, ?st2)
         | Returned (Inl e) \<Rightarrow> (Next (), h3, ?st2)
         | Returned (Inr res) \<Rightarrow>
             (Next (), h3, ?st2\<lparr>currentPredictOrder := currentPredictOrder ?st2 @ [trackedOf res],
                               currentOrderBool := True\<rparr>))"
    unfolding leg cancelled using s3 by (simp split: exec.splits sum.splits)
  have h3new: "hist @ new = h3"
    using run unfolding leg2 by (auto split: exec.splits sum.splits)
  have h3: "h3 = ?h2 @ [Request (submitRequest ?po)]"
  proof (rule disjE [OF SubmitFundingOffer_shape [OF ty, of "venue w" ?h2]])
    assume "\<exists>m. SubmitFundingOffer (venue w) ?h2 ?po = (Returned (Inl (ValidationError m)), ?h2)"
    with s3 have "h3 = ?h2" by auto
    with h3new have "new = ?g # map ?c (currentPredictOrder st)" by simp
    with sub g_ne submit_not_cancel [of offer "currentPredictOrder st"] show ?thesis
      by simp
  next
    assume "snd (SubmitFundingOffer (venue w) ?h2 ?po) = ?h2 @ [Request (submitRequest ?po)]"
    with s3 show ?thesis by simp
  qed
  with h3new have new: "new = ?g # map ?c (currentPredictOrder st) @ [Request (submitRequest ?po)]"
    by simp
  with sub g_ne submit_not_cancel [of offer "currentPredictOrder st"]
  have "Request (submitRequest offer) = Request (submitRequest ?po)"
    by auto
  then have offer: "offer = ?po" by (simp add: submitRequest_def)
  have bl: "butlast (hist @ new) = ?h2"
    unfolding new by (simp add: butlast_append)
  have r: "fst (SubmitFundingOffer (venue w) (butlast (hist @ new)) offer) = r"
    unfolding bl offer using s3 by simp
  have res: "(fl, st') = (case r of
           Panicked \<Rightarrow> (Crashed, ?st2)
         | Returned (Inl e) \<Rightarrow> (Next (), ?st2)
         | Returned (Inr res) \<Rightarrow>
             (Next (), ?st2\<lparr>currentPredictOrder := currentPredictOrder ?st2 @ [trackedOf res],
                               currentOrderBool := True\<rparr>))"
    using run unfolding leg2 by (auto split: exec.splits sum.splits)
  have p: "reqPeriod offer = 2" unfolding offer by (simp add: predictOffer_def)
  show ?thesis
    unfolding r using new offer p res by (auto split: exec.splits sum.splits)
qed

theorem predictiveLeg_replaces_tracked_order_witness:
  "predictiveLeg exampleWorld [] exampleTracking 200 200
     = (Next (),
        [Request (''GET'', ''v2/funding/stats/fUSD/hist'', NoBody),
         Request (cancelRequest 41), Request (cancelRequest 42),
         Request (submitRequest examplePredict)],
        \<lparr> currentPredictOrder =
            [\<lparr> cpoID = 77, cpoRate = 0.00026, cpoPeriod = 2, cpoSince = 1700000000000000000 \<rparr>],
          currentOrderBool = True \<rparr>)
   \<and> reqPeriod examplePredict = 2"
proof -
  have inv: "currentOrderBool exampleTracking = (currentPredictOrder exampleTracking \<noteq> [])"
    by (simp add: exampleTracking_def)
  have sub: "Request (submitRequest examplePredict)
      \<in> set [Request (''GET'', ''v2/funding/stats/fUSD/hist'', NoBody),
         Request (cancelRequest 41), Request (cancelRequest 42),
         Request (submitRequest examplePredict)]"
    by simp
  from predictiveLeg_replaces_tracked_order [OF inv leg_example sub] leg_example
  show ?thesis by simp
qed

section \<open>The fixed leg\<close>

lemma fix_refused:
  "SubmitFundingOffer exampleVenue h exampleFix
     = (Returned (Inl (TransportError ''Bitfinex API Error [10001]: offer: invalid (Status Code: 500)'')),
        h @ [Request (submitRequest exampleFix)])"
  by (simp add: SubmitFundingOffer_def SendRequest_def exampleFix_def submitRequest_def)



section \<open>A snapshot with no funding wallet in USD\<close>

text \<open>
  Claim C4, as stated, fails: with no funding wallet in USD among the wallets, the manager
  returns; it does not end the process as \<^verbatim>\<open>log.Fatal\<close> does.
\<close>

theorem StrategyManager_no_usd_wallet_counterexample:
  "StrategyManager exampleNoUsd
     = (ReturnNow, [Request walletsRequest, Request walletsRequest],
        \<lparr> currentPredictOrder = [], currentOrderBool = False \<rparr>)"
  by (simp add: StrategyManager_def exampleNoUsd_def exampleWorld_def GetTotalWalletBalance_def
      GetWallets_def SendRequest_def Let_def)

text \<open>
  Claim C4, amended. When the \<^verbatim>\<open>.env\<close> file loads, the key and the secret are set, both
  requests for the wallets are answered, and no funding wallet in USD is among the wallets:
  the manager returns after these two requests. It sends no other request, does not sleep,
  and tracks no order.
\<close>

theorem StrategyManager_no_usd_wallet:
  assumes "dotenvLoads w" and "BITFINEX_API_KEY w \<noteq> []" and "BITFINEX_API_SECRET w \<noteq> []"
    and "GetTotalWalletBalance (venue w) [] = (Returned (Inr (usdBalance, ustBalance)), hist1)"
    and "GetWallets (venue w) hist1 = (Returned (Inr wallets), hist2)"
    and "wallets ''USD'' = None"
  shows "StrategyManager w
           = (ReturnNow, [Request walletsRequest, Request walletsRequest],
              \<lparr> currentPredictOrder = [], currentOrderBool = False \<rparr>)"
proof -
  have "hist1 = [Request walletsRequest]"
    using assms(4)
    by (auto simp: GetTotalWalletBalance_def SendRequest_def split: reply.splits option.splits exec.splits)
  moreover have "hist2 = hist1 @ [Request walletsRequest]"
    using assms(5)
    by (auto simp: GetWallets_def SendRequest_def split: reply.splits option.splits exec.splits)
  ultimately show ?thesis
    using assms by (simp add: StrategyManager_def Let_def)
qed

theorem StrategyManager_no_usd_wallet_witness:
  "StrategyManager (exampleWorld\<lparr>venue := (\<lambda>hist rq. Body (JSON (DSlice [])))\<rparr>)
     = (ReturnNow, [Request walletsRequest, Request walletsRequest],
        \<lparr> currentPredictOrder = [], currentOrderBool = False \<rparr>)"
proof -
  let ?w = "exampleWorld\<lparr>venue := (\<lambda>hist rq. Body (JSON (DSlice [])))\<rparr>"
  have a: "dotenvLoads ?w" "BITFINEX_API_KEY ?w \<noteq> []" "BITFINEX_API_SECRET ?w \<noteq> []"
    by (simp_all add: exampleWorld_def)
  have b: "GetTotalWalletBalance (venue ?w) [] = (Returned (Inr (0, 0)), [Request walletsRequest])"
    by (simp add: GetTotalWalletBalance_def SendRequest_def)
  have c: "GetWallets (venue ?w) [Request walletsRequest]
             = (Returned (Inr Map.empty), [Request walletsRequest, Request walletsRequest])"
    by (simp add: GetWallets_def SendRequest_def)
  have d: "(Map.empty :: string \<rightharpoonup> real) ''USD'' = None" by simp
  show ?thesis
    by (rule StrategyManager_no_usd_wallet [OF a b c d])
qed

section \<open>The flag and the tracked orders\<close>

text \<open>The manager starts with no tracked order and the flag unset, and the predictive leg
  keeps the flag set exactly when an order is tracked.\<close>

lemma cancelExisting_keeps_invariant:
  assumes "currentOrderBool st = (currentPredictOrder st \<noteq> [])"
    and "cancelExisting tr hist st = (fl, hist', st2)"
  shows "currentOrderBool st2 = (currentPredictOrder st2 \<noteq> [])
       \<and> (fl = Next () \<longrightarrow> currentPredictOrder st2 = [])"
  using cancelExisting_shape [OF assms(1), of tr hist] assms by auto

lemma predictiveLeg_keeps_invariant:
  assumes inv: "currentOrderBool st = (currentPredictOrder st \<noteq> [])"
    and run: "predictiveLeg w hist st available remainPredict = (fl, hist', st')"
  shows "currentOrderBool st' = (currentPredictOrder st' \<noteq> [])"
proof -
  let ?clamped = "if available < remainPredict then available else remainPredict"
  obtain sr h1 where sr: "GetFundingStat (stdlib w) (venue w) hist ''fUSD'' = (sr, h1)"
    by (cases "GetFundingStat (stdlib w) (venue w) hist ''fUSD''") auto
  obtain flc h2 st2 where c: "cancelExisting (venue w) h1 st = (flc, h2, st2)"
    by (cases "cancelExisting (venue w) h1 st") auto
  note k = cancelExisting_keeps_invariant [OF inv c]
  show ?thesis
    using run inv k
    by (auto simp: predictiveLeg_def Let_def sr c split: if_splits sum.splits flow.splits exec.splits prod.splits)
qed


section \<open>The end of a pass\<close>

text \<open>A pass that goes through both legs ends with the sleep of 300 seconds. On the example
  venue the offer of the fixed leg is refused and the one of the predictive leg is
  accepted.\<close>

lemma allocate_sleeps_at_the_end:
  assumes "allocate w hist st usdBalance available = (Next u, hist', st')"
  shows "\<exists>before. hist' = before @ [Slept 300]"
  using assms
  by (auto simp: allocate_def Let_def split: prod.splits flow.splits
      elim!: thenSleep.elims)

lemma wallets_example:
  "GetTotalWalletBalance exampleVenue [] = (Returned (Inr (1000, 0)), [Request walletsRequest])"
  "GetWallets exampleVenue [Request walletsRequest]
     = (Returned (Inr [''USD'' \<mapsto> 400]), [Request walletsRequest, Request walletsRequest])"
  by (simp_all add: GetTotalWalletBalance_def GetWallets_def SendRequest_def walletsRequest_def
      exampleWallets_def)

lemma StrategyManager_example_pass:
  "StrategyManager exampleWorld
     = (Next (),
        [Request walletsRequest, Request walletsRequest, Request bookRequest,
         Request (submitRequest exampleFix),
         Request (''GET'', ''v2/funding/stats/fUSD/hist'', NoBody),
         Request (submitRequest (examplePredict)),
         Slept 300],
        \<lparr> currentPredictOrder =
            [\<lparr> cpoID = 77, cpoRate = 0.00026, cpoPeriod = 2, cpoSince = 1700000000000000000 \<rparr>],
          currentOrderBool = True \<rparr>)"
proof -
  have w: "venue exampleWorld = exampleVenue" "stdlib exampleWorld = exampleLib"
    "dotenvLoads exampleWorld" "BITFINEX_API_KEY exampleWorld \<noteq> []"
    "BITFINEX_API_SECRET exampleWorld \<noteq> []"
    by (simp_all add: exampleWorld_def)
  have book: "SendRequest exampleVenue h bookRequest
              = (Inr (JSON (DSlice (map DSlice exampleBook))), h @ [Request bookRequest])" for h
    by (simp add: SendRequest_def bookRequest_def)
  have fo: "fixOffer exampleLib 200 \<lparr> OfferID = 13, Period = 2, Rate = 9 / 10000, Amount = - 70 \<rparr>
              = exampleFix"
    by (simp add: fixOffer_def exampleFix_def exampleLib_def)
  have fixed: "fixedLeg exampleWorld h 400 200
                 = (Next 200, h @ [Request bookRequest, Request (submitRequest exampleFix)])" for h
    using best_exampleBook
    by (simp add: fixedLeg_def w book fo fix_refused)
  have po: "predictOffer exampleLib 200 s = examplePredict"
    if "FRR s = 1 / 5000" for s
    using that by (simp add: predictOffer_def examplePredict_def exampleLib_def)
  have sub: "SubmitFundingOffer exampleVenue h (examplePredict)
     = (Returned (Inr \<lparr> foID = 77, foSymbol = ''fUSD'', foCreatedAt = 1700000000000000000,
            foUpdatedAt = 1700000000000000000, foAmount = 200, foAmountOriginal = 200,
            foType = ''LIMIT'', foFlags = 0, foStatus = ''ACTIVE'', foRate = 0.00026,
            foPeriod = 2, foNotify = False, foHidden = 0, foRenew = False \<rparr>),
        h @ [Request (submitRequest (examplePredict))])" for h
    by (simp add: SubmitFundingOffer_def SendRequest_def examplePredict_def submitRequest_def
        parseSubmitResponse_def exampleAccepted_def offerOfData_def truncToInt_def wrap64_def)
  have pred: "predictiveLeg exampleWorld h \<lparr> currentPredictOrder = [], currentOrderBool = False \<rparr> 200 200
     = (Next (),
        h @ [Request (''GET'', ''v2/funding/stats/fUSD/hist'', NoBody),
             Request (submitRequest (examplePredict))],
        \<lparr> currentPredictOrder =
            [\<lparr> cpoID = 77, cpoRate = 0.00026, cpoPeriod = 2, cpoSince = 1700000000000000000 \<rparr>],
          currentOrderBool = True \<rparr>)" for h
    unfolding predictiveLeg_def w
    by (simp add: stats_example cancelExisting_def po sub trackedOf_def)
  show ?thesis
    unfolding StrategyManager_def
    by (simp add: w wallets_example allocate_def distribution_def fixed pred)
qed

section \<open>The repetition of the cycle\<close>

lemma runCycles_ends:
  assumes "runCycles ws n hist = Some y"
  shows "\<exists>k\<ge>n. stops (ws k) \<and> fst y = fst (StrategyManager (ws k))"
proof (rule runCycles.raw_induct
    [where P = "\<lambda>ws n hist y. \<exists>k\<ge>n. stops (ws k) \<and> fst y = fst (StrategyManager (ws k))",
     OF _ assms])
  fix f :: "(nat \<Rightarrow> world) \<Rightarrow> nat \<Rightarrow> event list \<Rightarrow> (unit flow \<times> event list) option"
    and ws n hist y
  assume IH: "\<And>ws n hist y. f ws n hist = Some y
                \<Longrightarrow> \<exists>k\<ge>n. stops (ws k) \<and> fst y = fst (StrategyManager (ws k))"
    and body: "(if stops (ws n)
                then Some (fst (StrategyManager (ws n)), hist @ fst (snd (StrategyManager (ws n))))
                else f ws (Suc n) (hist @ fst (snd (StrategyManager (ws n))))) = Some y"
  show "\<exists>k\<ge>n. stops (ws k) \<and> fst y = fst (StrategyManager (ws k))"
  proof (cases "stops (ws n)")
    case True
    with body show ?thesis by auto
  next
    case False
    with body have "f ws (Suc n) (hist @ fst (snd (StrategyManager (ws n)))) = Some y"
      by simp
    from IH [OF this] obtain k where "Suc n \<le> k" "stops (ws k)" "fst y = fst (StrategyManager (ws k))"
      by auto
    then have "n \<le> k \<and> stops (ws k) \<and> fst y = fst (StrategyManager (ws k))" by simp
    then show ?thesis by blast
  qed
qed

lemma runCycles_forever:
  assumes "\<forall>k\<ge>n. \<not> stops (ws k)"
  shows "runCycles ws n hist = None"
proof (cases "runCycles ws n hist")
  case None
  then show ?thesis .
next
  case (Some y)
  from runCycles_ends [OF Some] assms show ?thesis by auto
qed

lemma StrategyManager_Next_sleeps:
  assumes "StrategyManager w = (Next u, h, st)"
  shows "\<exists>before. h = before @ [Slept 300]"
  using assms allocate_sleeps_at_the_end
  by (auto simp: StrategyManager_def Let_def split: if_splits prod.splits exec.splits sum.splits option.splits)

lemma stops_iff:
  "stops w = (fst (StrategyManager w) = Crashed \<or> (\<exists>m. fst (StrategyManager w) = Fatal m))"
  by (simp add: stops_def split: flow.splits)

lemma SubmitFundingOffer_extends:
  "SubmitFundingOffer tr hist offer = (r, hist') \<Longrightarrow> \<exists>new. hist' = hist @ new"
  by (auto simp: SubmitFundingOffer_def SendRequest_def Let_def split: reply.splits if_splits)

lemma fixedLeg_extends:
  "fixedLeg w hist a r = (fl, hist') \<Longrightarrow> \<exists>new. hist' = hist @ new"
  by (auto simp: fixedLeg_def Let_def SendRequest_def
      split: reply.splits sum.splits prod.splits exec.splits if_splits
      dest!: SubmitFundingOffer_extends)

lemma cancelExisting_extends:
  "cancelExisting tr hist st = (fl, hist', st') \<Longrightarrow> \<exists>new. hist' = hist @ new"
  using cancelLoop_shape [of tr hist "currentPredictOrder st"]
  by (auto simp: cancelExisting_def split: if_splits)

lemma predictiveLeg_extends:
  "predictiveLeg w hist st a r = (fl, hist', st') \<Longrightarrow> \<exists>new. hist' = hist @ new"
  by (auto simp: predictiveLeg_def Let_def GetFundingStat_def SendRequest_def
      split: reply.splits sum.splits prod.splits exec.splits flow.splits if_splits
      dest!: SubmitFundingOffer_extends cancelExisting_extends)

lemma allocate_extends:
  "allocate w hist st u av = (fl, hist', st') \<Longrightarrow> \<exists>new. hist' = hist @ new"
  by (auto simp: allocate_def Let_def
      split: prod.splits flow.splits
      elim!: thenSleep.elims dest!: fixedLeg_extends predictiveLeg_extends)

lemma StrategyManager_starts_with_the_balances:
  "fst (snd (StrategyManager w)) = []
   \<or> (\<exists>rest. fst (snd (StrategyManager w)) = Request walletsRequest # rest)"
proof -
  have t: "snd (GetTotalWalletBalance tr []) = [Request walletsRequest]" for tr
    by (simp add: GetTotalWalletBalance_def SendRequest_def
        split: reply.splits option.splits exec.splits)
  have g: "snd (GetWallets tr h) = h @ [Request walletsRequest]" for tr h
    by (simp add: GetWallets_def SendRequest_def
        split: reply.splits option.splits exec.splits)
  obtain r1 where r1: "GetTotalWalletBalance (venue w) [] = (r1, [Request walletsRequest])"
    using t [of "venue w"] by (metis prod.collapse)
  obtain r2 where r2: "GetWallets (venue w) [Request walletsRequest]
                        = (r2, [Request walletsRequest, Request walletsRequest])"
    using g [of "venue w" "[Request walletsRequest]"] by (metis append_Cons append_Nil prod.collapse)
  have a2: "\<exists>rest. fst (snd (allocate w [Request walletsRequest, Request walletsRequest] st u av))
                 = Request walletsRequest # rest" for st u av
  proof -
    obtain fl h' st' where q: "allocate w [Request walletsRequest, Request walletsRequest] st u av
                               = (fl, h', st')"
      by (cases "allocate w [Request walletsRequest, Request walletsRequest] st u av") auto
    from allocate_extends [OF q] q show ?thesis by auto
  qed
  show ?thesis
    using a2
    by (auto simp: StrategyManager_def Let_def r1 r2 split: exec.splits sum.splits option.splits)
qed

text \<open>
  Claim C3, as stated, fails: the cycle has an end of its own. When the balances cannot be
  fetched the manager calls \<^verbatim>\<open>log.Fatal\<close>, and the loop is over after one pass.
\<close>

theorem runCycles_ended_by_log_Fatal:
  "StrategyManager (exampleWorld\<lparr>venue := (\<lambda>hist rq. SendFailed ''timeout'')\<rparr>)
     = (Fatal ''Error getting total wallet balance:'', [Request walletsRequest],
        \<lparr> currentPredictOrder = [], currentOrderBool = False \<rparr>)
   \<and> runCycles (\<lambda>n. exampleWorld\<lparr>venue := (\<lambda>hist rq. SendFailed ''timeout'')\<rparr>) 0 []
     = Some (Fatal ''Error getting total wallet balance:'', [Request walletsRequest])"
proof -
  have p: "StrategyManager (exampleWorld\<lparr>venue := (\<lambda>hist rq. SendFailed ''timeout'')\<rparr>)
     = (Fatal ''Error getting total wallet balance:'', [Request walletsRequest],
        \<lparr> currentPredictOrder = [], currentOrderBool = False \<rparr>)"
    by (simp add: StrategyManager_def exampleWorld_def GetTotalWalletBalance_def SendRequest_def)
  show ?thesis
    by (subst runCycles.simps) (simp add: p stops_def)
qed

text \<open>
  Claim C3, amended. A pass that goes through both legs ends with a sleep of 300 seconds,
  and the loop goes on with the next pass; a pass starts with the request for the balances
  (when it sends a request at all). The loop never ends when no pass panics or calls
  \<^verbatim>\<open>log.Fatal\<close>, and when it ends it is by one of the two.
\<close>

theorem runCycles_sleeps_and_repeats:
  "(StrategyManager (ws n) = (Next u, h, st) \<longrightarrow>
      (\<exists>before. h = before @ [Slept 300])
      \<and> runCycles ws n hist = runCycles ws (Suc n) (hist @ h))
   \<and> (fst (snd (StrategyManager (ws (Suc n)))) = []
      \<or> (\<exists>rest. fst (snd (StrategyManager (ws (Suc n)))) = Request walletsRequest # rest))
   \<and> ((\<forall>k\<ge>n. fst (StrategyManager (ws k)) \<noteq> Crashed
              \<and> (\<forall>m. fst (StrategyManager (ws k)) \<noteq> Fatal m))
        \<longrightarrow> runCycles ws n hist = None)
   \<and> (\<forall>fl hist'. runCycles ws n hist = Some (fl, hist')
        \<longrightarrow> fl = Crashed \<or> (\<exists>m. fl = Fatal m))"
proof (intro conjI impI allI)
  assume a: "StrategyManager (ws n) = (Next u, h, st)"
  then show "\<exists>before. h = before @ [Slept 300]"
    by (rule StrategyManager_Next_sleeps)
  from a have "\<not> stops (ws n)" by (simp add: stops_def)
  with a show "runCycles ws n hist = runCycles ws (Suc n) (hist @ h)"
    by (subst runCycles.simps) simp
next
  show "fst (snd (StrategyManager (ws (Suc n)))) = []
      \<or> (\<exists>rest. fst (snd (StrategyManager (ws (Suc n)))) = Request walletsRequest # rest)"
    by (rule StrategyManager_starts_with_the_balances)
next
  assume "\<forall>k\<ge>n. fst (StrategyManager (ws k)) \<noteq> Crashed
              \<and> (\<forall>m. fst (StrategyManager (ws k)) \<noteq> Fatal m)"
  then have "\<forall>k\<ge>n. \<not> stops (ws k)" by (simp add: stops_iff)
  then show "runCycles ws n hist = None" by (rule runCycles_forever)
next
  fix fl hist'
  assume "runCycles ws n hist = Some (fl, hist')"
  from runCycles_ends [OF this] show "fl = Crashed \<or> (\<exists>m. fl = Fatal m)"
    by (auto simp: stops_iff)
qed

theorem runCycles_sleeps_and_repeats_witness:
  "runCycles (\<lambda>n. exampleWorld) 0 [] = None
   \<and> runCycles (\<lambda>n. exampleWorld) 0 []
     = runCycles (\<lambda>n. exampleWorld) (Suc 0)
        [Request walletsRequest, Request walletsRequest, Request bookRequest,
         Request (submitRequest exampleFix),
         Request (''GET'', ''v2/funding/stats/fUSD/hist'', NoBody),
         Request (submitRequest examplePredict),
         Slept 300]"
proof -
  note t = runCycles_sleeps_and_repeats
    [where ws = "\<lambda>n. exampleWorld" and n = 0 and hist = "[]" and u = "()"
       and h = "[Request walletsRequest, Request walletsRequest, Request bookRequest,
                 Request (submitRequest exampleFix),
                 Request (''GET'', ''v2/funding/stats/fUSD/hist'', NoBody),
                 Request (submitRequest examplePredict),
                 Slept 300]"
       and st = "\<lparr> currentPredictOrder =
                    [\<lparr> cpoID = 77, cpoRate = 0.00026, cpoPeriod = 2,
                       cpoSince = 1700000000000000000 \<rparr>],
                  currentOrderBool = True \<rparr>"]
  have pass: "StrategyManager ((\<lambda>n. exampleWorld) 0)
     = (Next (),
        [Request walletsRequest, Request walletsRequest, Request bookRequest,
         Request (submitRequest exampleFix),
         Request (''GET'', ''v2/funding/stats/fUSD/hist'', NoBody),
         Request (submitRequest examplePredict),
         Slept 300],
        \<lparr> currentPredictOrder =
            [\<lparr> cpoID = 77, cpoRate = 0.00026, cpoPeriod = 2,
               cpoSince = 1700000000000000000 \<rparr>],
          currentOrderBool = True \<rparr>)"
    by (simp add: StrategyManager_example_pass)
  have goes_on: "\<forall>k\<ge>0. fst (StrategyManager ((\<lambda>n. exampleWorld) k)) \<noteq> Crashed
              \<and> (\<forall>m. fst (StrategyManager ((\<lambda>n. exampleWorld) k)) \<noteq> Fatal m)"
    by (simp add: StrategyManager_example_pass)
  have never: "runCycles (\<lambda>n. exampleWorld) 0 [] = None"
    by (rule t [THEN conjunct2, THEN conjunct2, THEN conjunct1, THEN mp, OF goes_on])
  have again: "runCycles (\<lambda>n. exampleWorld) 0 []
     = runCycles (\<lambda>n. exampleWorld) (Suc 0)
        [Request walletsRequest, Request walletsRequest, Request bookRequest,
         Request (submitRequest exampleFix),
         Request (''GET'', ''v2/funding/stats/fUSD/hist'', NoBody),
         Request (submitRequest examplePredict),
         Slept 300]"
    using t [THEN conjunct1, THEN mp, OF pass, THEN conjunct2] by simp
  from never again show ?thesis by (rule conjI)
qed

end
